theory Spec2Isabelle
  imports Complex_Main "HOL-Library.Sublist"
begin

section \<open>Conventions of the embedding\<close>

text \<open>
  The theory embeds the two classes of \<^verbatim>\<open>plasma3DClass.py\<close>, \<^verbatim>\<open>plasma3D\<close> (the driver of
  the external field line tracer) and \<^verbatim>\<open>heatflux3D\<close> (the heat flux model), and the module
  level functions \<^verbatim>\<open>Tprofile\<close> and \<^verbatim>\<open>eich_profile\<close>.

  \<^item> A number that the program reads (a configuration value, an entry of a result file or
    of the equilibrium, a sample of a profile) and the value of a closed form or of a
    spline on such numbers is a \<^typ>\<open>real\<close>: rounding and overflow are not modelled.
  \<^item> A number that NumPy computes with an operation that can leave the finite numbers (a
    quotient, the power 3.5, a mean, a maximum, an integral) is a \<open>float64\<close>: a real,
    \<open>+inf\<close>, \<open>-inf\<close> or \<open>nan\<close>, with the arithmetic and the comparisons of IEEE 754. NumPy
    warns and continues where Python's own floats raise \<^verbatim>\<open>ZeroDivisionError\<close>; the
    model follows the source in which of the two a quotient is.
  \<^item> A one-dimensional NumPy array is a list; a boolean mask is a \<^typ>\<open>bool list\<close>.
  \<^item> Every exception of the source is a value of the type \<open>error\<close>; a method that can
    raise returns \<open>error + 'a\<close>. An exception raised after an attribute was assigned loses
    the assignment in the model.
  \<^item> SciPy (\<^verbatim>\<open>erfc\<close>, \<^verbatim>\<open>simps\<close>, \<^verbatim>\<open>UnivariateSpline\<close>), the equilibrium object
    \<^verbatim>\<open>ep\<close>, the file system and the external tracer are not part of the repository; they
    are parameters of the functions that use them.
\<close>

datatype error =
    ValueError string
  | IndexError
  | TypeError
  | AttributeError
  | ZeroDivisionError
  | UnboundLocalError
  | RuntimeError string
  | CalledProcessError
  | OSError
  | RecursionError

section \<open>The floating point values of NumPy\<close>

text \<open>
  A \<^verbatim>\<open>float64\<close> is a finite number, one of the two infinities, or \<^verbatim>\<open>nan\<close>. Zero has no
  sign in the model: the quotient of a number other than zero by zero is the infinity
  with the sign of the numerator, that of an infinity by zero is this infinity.
\<close>

datatype float64 = Fin real | PInf | NInf | NaN

text \<open>
  The operations \<^verbatim>\<open>+\<close>, unary and binary \<^verbatim>\<open>-\<close>, \<^verbatim>\<open>*\<close>, \<^verbatim>\<open>/\<close>, \<^verbatim>\<open><\<close> and \<^verbatim>\<open><=\<close> of NumPy on
  these values: \<^verbatim>\<open>nan\<close> is absorbing, \<open>inf - inf\<close>, \<open>0 * inf\<close>, \<open>0 / 0\<close> and \<open>inf / inf\<close> are
  \<^verbatim>\<open>nan\<close>, and a comparison with \<^verbatim>\<open>nan\<close> is false.
\<close>

instantiation float64 :: "{plus, minus, uminus, times, inverse, ord}"
begin

fun plus_float64 :: "float64 \<Rightarrow> float64 \<Rightarrow> float64" where
  "Fin a + Fin b = Fin (a + b)"
| "Fin a + PInf = PInf"
| "Fin a + NInf = NInf"
| "PInf + Fin b = PInf"
| "PInf + PInf = PInf"
| "PInf + NInf = NaN"
| "NInf + Fin b = NInf"
| "NInf + PInf = NaN"
| "NInf + NInf = NInf"
| "NaN + y = NaN"
| "x + NaN = NaN"

fun uminus_float64 :: "float64 \<Rightarrow> float64" where
  "- Fin a = Fin (- a)"
| "- PInf = NInf"
| "- NInf = PInf"
| "- NaN = NaN"

definition minus_float64 :: "float64 \<Rightarrow> float64 \<Rightarrow> float64" where
  "(x::float64) - y = x + (- y)"

fun times_float64 :: "float64 \<Rightarrow> float64 \<Rightarrow> float64" where
  "Fin a * Fin b = Fin (a * b)"
| "Fin a * PInf = (if a = 0 then NaN else if 0 < a then PInf else NInf)"
| "Fin a * NInf = (if a = 0 then NaN else if 0 < a then NInf else PInf)"
| "PInf * Fin b = (if b = 0 then NaN else if 0 < b then PInf else NInf)"
| "PInf * PInf = PInf"
| "PInf * NInf = NInf"
| "NInf * Fin b = (if b = 0 then NaN else if 0 < b then NInf else PInf)"
| "NInf * PInf = NInf"
| "NInf * NInf = PInf"
| "NaN * y = NaN"
| "x * NaN = NaN"

fun divide_float64 :: "float64 \<Rightarrow> float64 \<Rightarrow> float64" where
  "divide (Fin a) (Fin b) =
     (if b = 0 then (if a = 0 then NaN else if 0 < a then PInf else NInf) else Fin (a / b))"
| "divide (Fin a) PInf = Fin 0"
| "divide (Fin a) NInf = Fin 0"
| "divide PInf (Fin b) = (if 0 \<le> b then PInf else NInf)"
| "divide NInf (Fin b) = (if 0 \<le> b then NInf else PInf)"
| "divide PInf PInf = NaN"
| "divide PInf NInf = NaN"
| "divide NInf PInf = NaN"
| "divide NInf NInf = NaN"
| "divide NaN y = NaN"
| "divide x NaN = NaN"

definition inverse_float64 :: "float64 \<Rightarrow> float64" where
  "inverse (x::float64) = divide (Fin 1) x"

fun less_float64 :: "float64 \<Rightarrow> float64 \<Rightarrow> bool" where
  "Fin a < Fin b \<longleftrightarrow> a < b"
| "Fin a < PInf \<longleftrightarrow> True"
| "NInf < Fin b \<longleftrightarrow> True"
| "NInf < PInf \<longleftrightarrow> True"
| "(x::float64) < y \<longleftrightarrow> False"

fun less_eq_float64 :: "float64 \<Rightarrow> float64 \<Rightarrow> bool" where
  "Fin a \<le> Fin b \<longleftrightarrow> a \<le> b"
| "Fin a \<le> PInf \<longleftrightarrow> True"
| "NInf \<le> Fin b \<longleftrightarrow> True"
| "NInf \<le> PInf \<longleftrightarrow> True"
| "PInf \<le> PInf \<longleftrightarrow> True"
| "NInf \<le> NInf \<longleftrightarrow> True"
| "(x::float64) \<le> y \<longleftrightarrow> False"

instance ..

end

text \<open>
  \<^verbatim>\<open>t**3.5\<close> on an entry of a NumPy array (\<^verbatim>\<open>nan\<close> for a negative base) and \<^verbatim>\<open>np.exp\<close>.
\<close>

definition power35 :: "real \<Rightarrow> float64" where
  "power35 t = (if t < 0 then NaN else Fin (t powr 3.5))"

fun fexp :: "float64 \<Rightarrow> float64" where
  "fexp (Fin x) = Fin (exp x)"
| "fexp PInf = PInf"
| "fexp NInf = Fin 0"
| "fexp NaN = NaN"

text \<open>A value that is not negative: \<^verbatim>\<open>nan\<close>, \<open>+inf\<close>, or a number that is at least zero.\<close>

definition not_negative :: "float64 \<Rightarrow> bool" where
  "not_negative x \<longleftrightarrow> x = NaN \<or> Fin 0 \<le> x"

section \<open>NumPy operations used by the source\<close>

text \<open>\<^verbatim>\<open>np.linspace(a, b, n)\<close>.\<close>

definition linspace :: "real \<Rightarrow> real \<Rightarrow> nat \<Rightarrow> real list" where
  "linspace a b n = map (\<lambda>i. a + real i * ((b - a) / real (n - 1))) [0..<n]"

text \<open>\<^verbatim>\<open>xs[mask]\<close> for a boolean mask of the length of \<open>xs\<close>.\<close>

definition select :: "bool list \<Rightarrow> 'a list \<Rightarrow> 'a list" where
  "select msk xs = map snd (filter fst (zip msk xs))"

text \<open>\<^verbatim>\<open>xs[mask] = vs\<close>: the selected entries are replaced, in order, by the entries of \<open>vs\<close>.\<close>

fun put_mask :: "bool list \<Rightarrow> 'a list \<Rightarrow> 'a list \<Rightarrow> 'a list" where
  "put_mask (m # ms) (x # xs) vs =
     (if m then (case vs of [] \<Rightarrow> x # put_mask ms xs [] | v # vs' \<Rightarrow> v # put_mask ms xs vs')
      else x # put_mask ms xs vs)"
| "put_mask _ xs _ = xs"

text \<open>\<^verbatim>\<open>np.where(c)[0]\<close>: the indices at which \<open>c\<close> holds.\<close>

definition np_where :: "bool list \<Rightarrow> nat list" where
  "np_where c = filter (\<lambda>i. c ! i) [0..<length c]"

text \<open>
  An elementwise operation on two arrays, with NumPy's broadcasting of an array of
  length one; other lengths that differ raise \<^verbatim>\<open>ValueError\<close>.
\<close>

definition broadcast2 :: "('a \<Rightarrow> 'b \<Rightarrow> 'c) \<Rightarrow> 'a list \<Rightarrow> 'b list \<Rightarrow> error + 'c list" where
  "broadcast2 f xs ys =
     (if length xs = length ys then Inr (map2 f xs ys)
      else if length xs = 1 then Inr (map (f (hd xs)) ys)
      else if length ys = 1 then Inr (map (\<lambda>x. f x (hd ys)) xs)
      else Inl (ValueError ''operands could not be broadcast together''))"

text \<open>
  \<^verbatim>\<open>xs.max()\<close> and \<^verbatim>\<open>xs.argmax()\<close> on an array that is not empty: the maximum is \<^verbatim>\<open>nan\<close>
  when an entry is, and \<^verbatim>\<open>argmax\<close> is the first index of the maximum.
\<close>

definition amax :: "float64 list \<Rightarrow> float64" where
  "amax xs = (if NaN \<in> set xs then NaN else fold (\<lambda>x m. if m < x then x else m) xs NInf)"

definition argmax :: "float64 list \<Rightarrow> nat" where
  "argmax xs = length (takeWhile (\<lambda>x. x \<noteq> amax xs) xs)"

text \<open>
  \<^verbatim>\<open>xs.argmin()\<close> on an array of numbers that is not empty, and \<^verbatim>\<open>np.mean\<close>, which is
  \<^verbatim>\<open>nan\<close> on an empty array.
\<close>

definition argmin :: "real list \<Rightarrow> nat" where
  "argmin xs = length (takeWhile (\<lambda>x. x \<noteq> Min (set xs)) xs)"

definition mean :: "real list \<Rightarrow> float64" where
  "mean xs = (if xs = [] then NaN else Fin (sum_list xs / real (length xs)))"

text \<open>Sequencing of calls that can raise.\<close>

definition bind :: "error + 'a \<Rightarrow> ('a \<Rightarrow> error + 'b) \<Rightarrow> error + 'b" where
  "bind m f = (case m of Inl e \<Rightarrow> Inl e | Inr v \<Rightarrow> f v)"

section \<open>Module level functions\<close>

subsection \<open>Tprofile\<close>

text \<open>
  \<^verbatim>\<open>Tprofile(psi, Tped, deriv = False)\<close> returns \<open>T\<close>, or the pair \<open>(T, dT)\<close> when
  \<open>deriv\<close> is set; the second component of the model is \<open>None\<close> in the first case.
\<close>

definition Tprofile :: "real \<Rightarrow> real \<Rightarrow> bool \<Rightarrow> real \<times> real option" where
  "Tprofile psi Tped deriv =
     (let xs = 0.975;
          dw = 0.04;
          f = (\<lambda>x. 0.5 * tanh (2 * (xs - x) / dw) + 2 * exp (- x * 2));
          T0 = Tped / (f (xs - dw) - f 1.2);
          T = T0 * (f psi - f 1.2)
      in if deriv
         then (T, Some (- T0 / dw * (1 - (tanh (2 * (xs - psi) / dw))\<^sup>2) - T0 * 4 * exp (- psi * 2)))
         else (T, None))"

text \<open>The profile as the specification words it, for comparison with \<open>Tprofile\<close>.\<close>

definition pedestal_g :: "real \<Rightarrow> real" where
  "pedestal_g x = 0.5 * tanh (2 * (0.975 - x) / 0.04) + 2 * exp (- 2 * x)"

definition pedestal_T0n :: "real \<Rightarrow> real" where
  "pedestal_T0n Tped = Tped / (pedestal_g (0.975 - 0.04) - pedestal_g 1.2)"

subsection \<open>eich\_profile\<close>

text \<open>
  \<^verbatim>\<open>eich_profile(s, lq, S, s0, q0, qBG, fx)\<close> on an array \<open>s\<close>, with scalar \<open>lq\<close>, \<open>S\<close>
  and \<open>fx\<close>. The first argument of the model is \<^verbatim>\<open>scipy.special.erfc\<close>. The quotient
  \<^verbatim>\<open>0.5*S/lq\<close> is a quotient of Python floats and raises on a zero divisor; the two
  quotients by \<open>a\<close> and \<open>c\<close> are NumPy divisions of an array.
\<close>

definition eich_profile ::
  "(float64 \<Rightarrow> float64) \<Rightarrow> real list \<Rightarrow> real \<Rightarrow> real \<Rightarrow> real \<Rightarrow> real \<Rightarrow> real \<Rightarrow> real
     \<Rightarrow> error + float64 list" where
  "eich_profile erfc s lq Sw s0 q0 qBG0 fx =
     (let lq1 = lq * (1 / 1000);
          S1 = Sw * (1 / 1000);
          a = lq1 * fx
      in if lq1 = 0 then Inl ZeroDivisionError
         else let b = 0.5 * S1 / lq1;
                  c = S1 * fx
              in Inr (map (\<lambda>si. Fin (0.5 * q0) * fexp (Fin (b\<^sup>2) - Fin (si - s0) / Fin a)
                                   * erfc (Fin b - Fin (si - s0) / Fin c) + Fin qBG0) s))"


section \<open>Collaborators outside the repository\<close>

text \<open>
  The SciPy functions the module calls: \<^verbatim>\<open>scipy.special.erfc\<close> on a \<^verbatim>\<open>float64\<close>,
  \<^verbatim>\<open>scipy.integrate.simps\<close> (called as \<^verbatim>\<open>simps(y, x)\<close>) and the constructor
  \<^verbatim>\<open>UnivariateSpline(x, y, s = 0, ext = 'const')\<close>, which raises or returns the interpolant.
\<close>

record scipy =
  erfc :: "float64 \<Rightarrow> float64"
  simps :: "float64 list \<Rightarrow> real list \<Rightarrow> float64"
  UnivariateSpline :: "real list \<Rightarrow> real list \<Rightarrow> error + (real \<Rightarrow> real)"

text \<open>
  A file is the table of numbers that \<^verbatim>\<open>np.genfromtxt(file, comments = '#')\<close> and
  \<^verbatim>\<open>np.loadtxt\<close> find in it: one list per data row, comment lines left out. The file
  system maps a path to its file, \<open>None\<close> when \<^verbatim>\<open>os.path.isfile\<close> is false.
\<close>

type_synonym files = "string \<Rightarrow> real list list option"

datatype ndarray = Arr1 "real list" | Arr2 "real list list"

text \<open>
  The array read from a table: rows of different lengths raise, no row or a single row or
  a single column gives an array of one dimension, anything else one of two dimensions.
\<close>

definition genfromtxt :: "real list list \<Rightarrow> error + ndarray" where
  "genfromtxt rows0 =
     (let rows = filter (\<lambda>r. r \<noteq> []) rows0
      in if rows = [] then Inr (Arr1 [])
         else if \<exists>r \<in> set rows. length r \<noteq> length (hd rows)
              then Inl (ValueError ''Some errors were detected'')
         else if length rows = 1 then Inr (Arr1 (hd rows))
         else if length (hd rows) = 1 then Inr (Arr1 (map hd rows))
         else Inr (Arr2 rows))"

text \<open>\<^verbatim>\<open>a[:, k]\<close>.\<close>

fun column :: "nat \<Rightarrow> ndarray \<Rightarrow> error + real list" where
  "column k (Arr1 xs) = Inl IndexError"
| "column k (Arr2 rows) =
     (if k < length (hd rows) then Inr (map (\<lambda>r. r ! k) rows) else Inl IndexError)"

text \<open>A Python condition on a value that can be \<^verbatim>\<open>None\<close>.\<close>

definition truthy :: "bool option \<Rightarrow> bool" where
  "truthy b = (b = Some True)"

section \<open>The tracer driver: class plasma3D\<close>

text \<open>
  The attributes of a \<^verbatim>\<open>plasma3D\<close> object that the modelled methods read or assign; each
  of the arrays is \<^verbatim>\<open>None\<close> until it is set.
\<close>

record plasma3D =
  R :: "real list option"
  phi :: "real list option"
  Z :: "real list option"
  psimin :: "real list option"
  Lc :: "real list option"
  cwd :: string

text \<open>
  \<^verbatim>\<open>writePoints\<close> writes the header and one line per point; read back as a table the file
  has one row \<open>[R, phi, Z]\<close> per point. \<^verbatim>\<open>updatePoints\<close> stores the arrays and writes them.
\<close>

definition writePoints :: "files \<Rightarrow> plasma3D \<Rightarrow> string \<Rightarrow> error + files" where
  "writePoints fs self filename =
     (case (R self, phi self, Z self) of
        (Some r, Some p, Some z) \<Rightarrow>
          (if length p < length r \<or> length z < length r then Inl IndexError
           else Inr (fs(cwd self @ ''/'' @ filename \<mapsto> map (\<lambda>i. [r ! i, p ! i, z ! i]) [0..<length r])))
      | _ \<Rightarrow> Inl AttributeError)"

definition updatePoints ::
  "files \<Rightarrow> plasma3D \<Rightarrow> real list \<Rightarrow> real list \<Rightarrow> real list \<Rightarrow> error + plasma3D \<times> files" where
  "updatePoints fs self R' phi' Z' =
     (let self1 = self\<lparr>R := Some R', phi := Some phi', Z := Some Z'\<rparr>
      in bind (writePoints fs self1 ''points3DHF.dat'') (\<lambda>fs'. Inr (self1, fs')))"

text \<open>
  \<^verbatim>\<open>readLaminar(tag, path)\<close>: the name of the result file, and the method, which returns
  the object and the lines it prints.
\<close>

definition lam_file :: "plasma3D \<Rightarrow> string option \<Rightarrow> string option \<Rightarrow> string" where
  "lam_file self tag path =
     (case path of None \<Rightarrow> cwd self | Some p \<Rightarrow> p) @ ''/'' @ ''lam_''
       @ (case tag of None \<Rightarrow> [] | Some t \<Rightarrow> t) @ ''.dat''"

definition readLaminar ::
  "files \<Rightarrow> plasma3D \<Rightarrow> string option \<Rightarrow> string option \<Rightarrow> error + plasma3D \<times> string list" where
  "readLaminar fs self tag path =
     (let file = lam_file self tag path
      in case fs file of
           Some rows \<Rightarrow>
             bind (genfromtxt rows) (\<lambda>lamdata.
             bind (column 3 lamdata) (\<lambda>c3.
             bind (column 4 lamdata) (\<lambda>c4.
             Inr (self\<lparr>plasma3D.Lc := Some c3, plasma3D.psimin := Some c4\<rparr>, []))))
         | None \<Rightarrow> Inr (self, [''MAFOT output file: '' @ file @ '' not found!'']))"

text \<open>
  \<^verbatim>\<open>isProcessRunning\<close> on the lines of \<^verbatim>\<open>ps aux | grep heatlaminar_mpi\<close> (the process id it
  also stores is left out), and \<^verbatim>\<open>isComplete\<close> on the directory listing, each file name with
  the lines that \<^verbatim>\<open>tail\<close> prints for it (\<open>None\<close> when \<^verbatim>\<open>tail\<close> fails). Only the first file
  whose name contains \<^verbatim>\<open>_Master.dat\<close> is looked at, and without such a file the method
  returns \<^verbatim>\<open>None\<close>.
\<close>

definition isProcessRunning :: "string \<Rightarrow> string list \<Rightarrow> bool" where
  "isProcessRunning usr lines = (\<exists>line \<in> set lines. sublist ''mpirun'' line \<and> sublist usr line)"

definition isComplete :: "(string \<times> string list option) list \<Rightarrow> error + bool option" where
  "isComplete listing =
     (case filter (\<lambda>(f, t). sublist ''_Master.dat'' f) listing of
        [] \<Rightarrow> Inr None
      | (f, t) # rest \<Rightarrow>
          (case t of
             None \<Rightarrow> Inl CalledProcessError
           | Some lines \<Rightarrow> Inr (Some (\<exists>line \<in> set lines. sublist ''Program terminates normally'' line))))"

text \<open>
  What \<^verbatim>\<open>wait2finish\<close> observes of the outside: the user name; the lines of \<^verbatim>\<open>ps\<close> at the
  \<open>j\<close>-th poll of the \<open>k\<close>-th run of the tracer, \<open>None\<close> when \<^verbatim>\<open>subprocess.check_output\<close>
  raises because the pipeline ends with a status other than zero (as when \<^verbatim>\<open>grep\<close> finds no
  line); the directory listing
  when the \<open>k\<close>-th run has ended; and for the \<open>k\<close>-th restart the error that
  \<^verbatim>\<open>subprocess.call\<close> raises when it cannot start the program, \<open>None\<close> when it returns.

  The method polls until no process is seen, and on an incomplete run calls the tracer
  again and then itself. The interpreter bounds the depth of nested calls
  (\<^verbatim>\<open>sys.getrecursionlimit()\<close>, 1000 unless it is changed, and the module does not change
  it), and every restart is one call of the method inside the other: \<open>frames\<close> is the
  number of nested activations of \<^verbatim>\<open>wait2finish\<close>, each with the calls it makes, that fit
  under this bound when the method is called. An activation that does not fit raises
  \<^verbatim>\<open>RecursionError\<close> before it has launched anything.

  The model returns the list of the restarts that were launched, each with its process
  count and tag, and the exception that ends the call, if any. The value \<open>None\<close> of the
  model means that the method does not return, the process being seen at every poll.
\<close>

record tracer_world =
  user :: string
  ps_aux :: "nat \<Rightarrow> nat \<Rightarrow> string list option"
  logs :: "nat \<Rightarrow> (string \<times> string list option) list"
  mpirun :: "nat \<Rightarrow> error option"

partial_function (option) poll :: "(nat \<Rightarrow> bool option) \<Rightarrow> nat \<Rightarrow> (error + nat) option" where
  "poll running j =
     (case running j of
        None \<Rightarrow> Some (Inl CalledProcessError)
      | Some r \<Rightarrow> if r then poll running (Suc j) else Some (Inr j))"

partial_function (option) wait2finish ::
  "tracer_world \<Rightarrow> nat \<Rightarrow> nat \<Rightarrow> string \<Rightarrow> (nat \<times> string) list
     \<Rightarrow> ((nat \<times> string) list \<times> error option) option" where
  "wait2finish w frames nproc tag launched =
     (if frames = 0 then Some (launched, Some RecursionError)
      else Option.bind
        (poll (\<lambda>j. map_option (isProcessRunning (user w)) (ps_aux w (length launched) j)) 0) (\<lambda>p.
        case p of
          Inl e \<Rightarrow> Some (launched, Some e)
        | Inr j \<Rightarrow>
            (case isComplete (logs w (length launched)) of
               Inl e \<Rightarrow> Some (launched, Some e)
             | Inr c \<Rightarrow>
                 if \<not> truthy c
                 then (case mpirun w (length launched) of
                         Some e \<Rightarrow> Some (launched, Some e)
                       | None \<Rightarrow> wait2finish w (frames - 1) nproc tag (launched @ [(nproc, tag)]))
                 else Some (launched, None))))"

section \<open>The heat flux model: class heatflux3D\<close>

text \<open>
  The equilibrium object \<^verbatim>\<open>ep\<close>: the normalised flux function \<^verbatim>\<open>ep.psiFunc.ev\<close> and the
  entries of \<^verbatim>\<open>ep.g\<close> that the class reads (\<open>gR\<close> is \<^verbatim>\<open>ep.g['R']\<close>).
\<close>

record equil =
  psiFunc_ev :: "real \<Rightarrow> real \<Rightarrow> real"
  psiSep :: real
  psiAxis :: real
  RmAxis :: real
  ZmAxis :: real
  R1 :: real
  Xdim :: real
  gR :: "real list"

text \<open>
  The value of \<^verbatim>\<open>teProfileData\<close> and \<^verbatim>\<open>neProfileData\<close> by its runtime type: a string (a
  file name), an array, a number, or anything else.
\<close>

datatype profile_data = FileName string | Samples "real list" | Scalar real | Other

text \<open>
  The attributes of a \<^verbatim>\<open>heatflux3D\<close> object on which \<^verbatim>\<open>initializeHF3D\<close> and
  \<^verbatim>\<open>updateLaminarData\<close> have run (before that, reading \<^verbatim>\<open>self.Psol\<close>, \<^verbatim>\<open>self.fT\<close>,
  \<^verbatim>\<open>self.good\<close> or \<^verbatim>\<open>self.pfr\<close> raises \<^verbatim>\<open>AttributeError\<close>). \<open>HFS\<close>, \<open>model\<close> and the
  profile data can be \<^verbatim>\<open>None\<close>.
\<close>

record heatflux3D =
  psimin :: "real list"
  Lc :: "real list"
  N :: nat
  q :: "float64 list"
  good :: "bool list"
  pfr :: "bool list"
  ep :: equil
  HFS :: "bool option"
  teProfileData :: "profile_data option"
  neProfileData :: "profile_data option"
  inputDir :: string
  Lcmin :: real
  lcfs :: real
  lqCN :: real
  S :: real
  P :: real
  coreRadFrac :: real
  qBG :: real
  kappa :: real
  model :: "string option"
  Psol :: real
  fT :: "real \<Rightarrow> real"
  fn :: "real \<Rightarrow> real"

subsection \<open>setHFctl and initializeHF3D\<close>

definition setHFctl ::
  "heatflux3D \<Rightarrow> real \<Rightarrow> real \<Rightarrow> real \<Rightarrow> real \<Rightarrow> real \<Rightarrow> real \<Rightarrow> real \<Rightarrow> real \<Rightarrow> heatflux3D" where
  "setHFctl self Lcmin' lcfs' lqCN' S' P' coreRadFrac' qBG' kappa' =
     self\<lparr>Lcmin := Lcmin', lcfs := lcfs', lqCN := lqCN', S := S', P := P',
          coreRadFrac := coreRadFrac', qBG := qBG', kappa := kappa',
          teProfileData := None, neProfileData := None, model := None\<rparr>"

text \<open>\<^verbatim>\<open>setHFctl()\<close> with the default values of its parameters.\<close>

definition setHFctl_defaults :: "heatflux3D \<Rightarrow> heatflux3D" where
  "setHFctl_defaults self = setHFctl self 0.075 0.97 5 2 10 0.0 0 2000"

text \<open>
  The resolution of one profile in \<^verbatim>\<open>initializeHF3D\<close>: \<open>dflt\<close> is the value used when the
  data is \<^verbatim>\<open>None\<close>, \<open>generic\<close> the closed form used for a number, \<open>what\<close> the word of the
  error message.
\<close>

definition resolve_profile ::
  "scipy \<Rightarrow> files \<Rightarrow> string \<Rightarrow> profile_data option \<Rightarrow> real \<Rightarrow> (real \<Rightarrow> real \<Rightarrow> real) \<Rightarrow> string
     \<Rightarrow> error + (real \<Rightarrow> real)" where
  "resolve_profile sci fs dir data dflt generic what =
     (case (case data of None \<Rightarrow> Scalar dflt | Some d \<Rightarrow> d) of
        FileName name \<Rightarrow>
          (let path = (if sublist ''./'' name \<or> CHR ''/'' \<notin> set name then dir @ ''/'' else [])
           in case fs (path @ name) of
                None \<Rightarrow> Inl (RuntimeError (path @ name @ '' file not found!''))
              | Some rows \<Rightarrow>
                  bind (genfromtxt rows) (\<lambda>TData.
                  bind (column 0 TData) (\<lambda>psiT.
                  bind (column 1 TData) (\<lambda>T. UnivariateSpline sci psiT T))))
      | Samples T \<Rightarrow> UnivariateSpline sci (linspace 0 1.1 (length T)) T
      | Scalar T \<Rightarrow> Inr (\<lambda>x. generic x T)
      | Other \<Rightarrow> Inl (RuntimeError (''Invalid '' @ what @ '' profile data'')))"

text \<open>
  \<^verbatim>\<open>initializeHF3D(ep, inputFile, cwd, inputDir)\<close>. The argument \<open>loaded\<close> is the effect on
  the object of \<^verbatim>\<open>tools.read_input_file\<close> followed by \<^verbatim>\<open>setTypes\<close> when an input file is
  given and found, and \<open>None\<close> otherwise, when \<^verbatim>\<open>setHFctl()\<close> sets the defaults.
\<close>

definition initializeHF3D ::
  "scipy \<Rightarrow> files \<Rightarrow> heatflux3D \<Rightarrow> equil \<Rightarrow> (heatflux3D \<Rightarrow> heatflux3D) option \<Rightarrow> string
     \<Rightarrow> error + heatflux3D" where
  "initializeHF3D sci fs self ep' loaded inputDir' =
     (let self1 = self\<lparr>ep := ep', inputDir := inputDir'\<rparr>;
          self2 = (case loaded of Some rd \<Rightarrow> rd self1 | None \<Rightarrow> setHFctl_defaults self1);
          self3 = self2\<lparr>Psol := (1 - coreRadFrac self2) * P self2\<rparr>
      in bind (resolve_profile sci fs (inputDir self3) (teProfileData self3) 2
                 (\<lambda>x T. fst (Tprofile x T False)) ''T'') (\<lambda>fT'.
         bind (resolve_profile sci fs (inputDir self3) (neProfileData self3) 0.5
                 (\<lambda>x ne. ne + x * 0) ''density'') (\<lambda>fn'.
         Inr (self3\<lparr>fT := fT', fn := fn'\<rparr>))))"

subsection \<open>updateLaminarData, isGoodPoint, isPFR\<close>

definition isGoodPoint :: "heatflux3D \<Rightarrow> error + bool list" where
  "isGoodPoint self =
     (let fails = np_where (map (\<lambda>x. x = 10) (psimin self))
      in if \<forall>i \<in> set fails. i < N self
         then Inr (map (\<lambda>i. i \<notin> set fails) [0..<N self])
         else Inl IndexError)"

definition isPFR :: "heatflux3D \<Rightarrow> error + bool list" where
  "isPFR self =
     bind (broadcast2 (\<and>) (map (\<lambda>x. x < 1) (psimin self)) (map (\<lambda>x. x < Lcmin self) (Lc self)))
       (\<lambda>c. let idx = np_where c
             in if \<forall>i \<in> set idx. i < N self
                then Inr (map (\<lambda>i. i \<in> set idx) [0..<N self])
                else Inl IndexError)"

definition updateLaminarData :: "heatflux3D \<Rightarrow> real list \<Rightarrow> real list \<Rightarrow> error + heatflux3D" where
  "updateLaminarData self psimin' Lc' =
     (let self1 = self\<lparr>psimin := psimin', Lc := Lc', N := length psimin',
                        q := replicate (length psimin') (Fin 0)\<rparr>
      in bind (isGoodPoint self1) (\<lambda>g.
           let self2 = self1\<lparr>good := g\<rparr>
           in bind (isPFR self2) (\<lambda>p. Inr (self2\<lparr>pfr := p\<rparr>))))"

subsection \<open>The layer model: map\_R\_psi, set\_layer, getq\_layer\<close>

text \<open>
  \<^verbatim>\<open>map_R_psi(psi)\<close> with \<^verbatim>\<open>HFS\<close> left at its default, on an array and on a number.
\<close>

definition map_R_psi :: "scipy \<Rightarrow> heatflux3D \<Rightarrow> real list \<Rightarrow> error + real list" where
  "map_R_psi sci self psi =
     (let Rg = (if truthy (HFS self)
                then linspace (RmAxis (ep self)) (R1 (ep self)) 100
                else linspace (RmAxis (ep self)) (R1 (ep self) + Xdim (ep self)) 100);
          p = map (\<lambda>r. psiFunc_ev (ep self) r (ZmAxis (ep self))) Rg
      in bind (UnivariateSpline sci p Rg) (\<lambda>f. Inr (map f psi)))"

definition map_R_psi1 :: "scipy \<Rightarrow> heatflux3D \<Rightarrow> real \<Rightarrow> error + real" where
  "map_R_psi1 sci self psi = bind (map_R_psi sci self [psi]) (\<lambda>r. Inr (hd r))"

text \<open>
  \<^verbatim>\<open>set_layer(psi, lq, S, lcfs, q0, lobes)\<close> returns the pair of the normalised profile and
  of its value at the separatrix. The maximum of an empty array raises; the quotient by
  the maximum is a NumPy division.
\<close>

definition set_layer ::
  "scipy \<Rightarrow> heatflux3D \<Rightarrow> real list \<Rightarrow> real \<Rightarrow> real \<Rightarrow> real \<Rightarrow> float64 \<Rightarrow> bool
     \<Rightarrow> error + float64 list \<times> float64" where
  "set_layer sci self psi lq Sw lcfs' q0 lobes =
     bind (map_R_psi sci self psi) (\<lambda>x.
     bind (map_R_psi1 sci self 1.0) (\<lambda>xsep.
     bind (if lobes
           then bind (map_R_psi1 sci self lcfs') (\<lambda>s0.
                bind (map_R_psi sci self (linspace (lcfs' - 0.05) (lcfs' + 0.1) 10000)) (\<lambda>s.
                Inr (s0, s)))
           else bind (map_R_psi1 sci self 1.0) (\<lambda>s0.
                bind (map_R_psi sci self (linspace 0.95 1.1 10000)) (\<lambda>s.
                Inr (s0, s)))) (\<lambda>(s0, s).
     bind (eich_profile (erfc sci) s lq Sw s0 1 0 1) (\<lambda>qref.
       let idx = argmax qref;
           smax = s ! idx;
           qmax = qref ! idx;
           (x1, xsep1, x0) =
              (if truthy (HFS self)
               then (map (\<lambda>v. v * (- 1)) x, xsep * (- 1), smax * (- 1))
               else (x, xsep, s0 - (smax - s0)))
       in bind (eich_profile (erfc sci) x1 lq Sw x0 1 0 1) (\<lambda>qv.
          bind (eich_profile (erfc sci) [xsep1] lq Sw x0 1 0 1) (\<lambda>qsep.
            let qv1 = (if lobes then map2 (\<lambda>p v. if p < lcfs' then qmax else v) psi qv else qv)
            in if qv1 = [] then Inl (ValueError ''zero-size array to reduction operation maximum'')
               else Inr (map (\<lambda>v. v / amax qv1 * q0) qv1, hd qsep / amax qv1 * q0)))))))"

definition getq_layer :: "scipy \<Rightarrow> heatflux3D \<Rightarrow> error + float64 list" where
  "getq_layer sci self =
     bind (set_layer sci self (psimin self) (lqCN self) (S self) (lcfs self) (Fin 1) True) (\<lambda>(qv, q0).
       if True \<in> set (pfr self)
       then if length (pfr self) \<noteq> length (psimin self) then Inl IndexError
            else bind (set_layer sci self (select (pfr self) (psimin self)) (lqCN self) (S self) 1.0 q0 False)
                   (\<lambda>(qp, qs). Inr (put_mask (pfr self) qv qp))
       else Inr qv)"

subsection \<open>The conductive model: getq\_conduct\<close>

text \<open>
  The expression \<^verbatim>\<open>2.0/7.0 * kappa/L * (T**3.5 - T0**3.5) * (1e+3)**3.5/1e+6\<close>, which
  \<^verbatim>\<open>getq_conduct\<close> and \<^verbatim>\<open>scale_conduct\<close> both evaluate on their array \<open>T\<close>, with \<open>T0\<close> at
  its default \<open>0\<close>, where every call in the class leaves it. The length \<open>L\<close> is a NumPy
  number (a mean), so that the quotient \<^verbatim>\<open>kappa/L\<close> and all that follows are NumPy
  operations, entry by entry.
\<close>

definition conduct_q :: "real \<Rightarrow> float64 \<Rightarrow> real list \<Rightarrow> float64 list" where
  "conduct_q kappa' L T =
     map (\<lambda>t. Fin (2.0 / 7.0 * kappa') / L * (power35 t - Fin (0 powr 3.5)) * Fin (1000 powr 3.5)
               / Fin 1000000) T"

text \<open>
  \<^verbatim>\<open>getq_conduct(psi, kappa, T0, L, limit, pfr, ratio)\<close> with \<open>T0 = 0\<close>; \<open>pfr\<close> is \<^verbatim>\<open>None\<close> or a
  mask.
\<close>

definition getq_conduct ::
  "heatflux3D \<Rightarrow> real list \<Rightarrow> real \<Rightarrow> float64 \<Rightarrow> bool \<Rightarrow> bool list option \<Rightarrow> real
     \<Rightarrow> error + float64 list" where
  "getq_conduct self psi kappa' L limit pfr' ratio =
     (let T = map (fT self) psi;
          T1 = (if limit then map2 (\<lambda>p t. if p < lcfs self then fT self (lcfs self) else t) psi T else T)
      in bind (case pfr' of
                 None \<Rightarrow> Inr T1
               | Some m \<Rightarrow>
                   if length m \<noteq> length psi then Inl IndexError
                   else Inr (put_mask m T1 (map (\<lambda>p. fT self (1 + ratio * (1 - p))) (select m psi))))
           (\<lambda>T2. Inr (conduct_q kappa' L T2)))"

subsection \<open>The power balance: scale\_conduct and scale\_layer\<close>

text \<open>
  Both methods build an unscaled profile \<open>q_hat\<close> on a grid \<open>psiN\<close> of normalised flux and
  end with the same lines, which are \<open>power_balance\<close>. \<open>conduct_shape\<close> is the part of
  \<^verbatim>\<open>scale_conduct\<close> before them (with \<open>T0 = 0\<close>), \<open>layer_shape\<close> the part of \<^verbatim>\<open>scale_layer\<close>.
  \<^verbatim>\<open>simps\<close> raises when its two arrays differ in length.
\<close>

definition conduct_shape :: "heatflux3D \<Rightarrow> real \<Rightarrow> float64 \<Rightarrow> real \<Rightarrow> float64 list \<times> real list" where
  "conduct_shape self kappa' L ratio =
     (let psiN = linspace 0.85 1.2 1000;
          T = map (fT self) psiN;
          pfr' = map (\<lambda>p. p < 1.0) psiN;
          T1 = put_mask pfr' T (map (\<lambda>p. fT self (1.0 + ratio * (1.0 - p))) (select pfr' psiN))
      in (conduct_q kappa' L T1, psiN))"

definition power_balance :: "scipy \<Rightarrow> equil \<Rightarrow> real \<Rightarrow> float64 list \<Rightarrow> real list \<Rightarrow> error + float64" where
  "power_balance sci e P' q_hat psiN =
     (let psi = map (\<lambda>p. p * (psiSep e - psiAxis e) + psiAxis e) psiN
      in if length q_hat \<noteq> length psi then Inl (ValueError ''shapes of x and y do not match'')
         else let P0 = Fin (2 * pi) * simps sci q_hat psi;
                  P1 = (if P0 < Fin 0 then - P0 else P0)
              in Inr (Fin P' / P1))"

definition scale_conduct :: "scipy \<Rightarrow> heatflux3D \<Rightarrow> real \<Rightarrow> real \<Rightarrow> float64 \<Rightarrow> real \<Rightarrow> error + float64" where
  "scale_conduct sci self P' kappa' L ratio =
     (case conduct_shape self kappa' L ratio of (q_hat, psiN) \<Rightarrow>
        power_balance sci (ep self) P' q_hat psiN)"

text \<open>
  \<^verbatim>\<open>scale_layer\<close> reads the file \<^verbatim>\<open>lam_hfs_mp.dat\<close> or \<^verbatim>\<open>lam_lfs_mp.dat\<close> of the input
  directory and, when it is not there, first writes the midplane points and runs the
  tracer. The tracer is a parameter: from the tag, the points and the file system it gives
  the file system it leaves, or the error of \<^verbatim>\<open>subprocess.run\<close>. A file still missing
  leaves the local \<^verbatim>\<open>psimin\<close> unbound.
\<close>

type_synonym tracer = "string \<Rightarrow> real list list \<Rightarrow> files \<Rightarrow> error + files"

definition layer_shape ::
  "scipy \<Rightarrow> files \<Rightarrow> tracer \<Rightarrow> heatflux3D \<Rightarrow> real \<Rightarrow> real \<Rightarrow> real option
     \<Rightarrow> error + float64 list \<times> real list" where
  "layer_shape sci fs run self lq Sw pfr' =
     (let pfr1 = (case pfr' of None \<Rightarrow> lcfs self | Some v \<Rightarrow> v);
          e = ep self
      in bind (map_R_psi1 sci self (lcfs self)) (\<lambda>Rlcfs.
         bind (if truthy (HFS self)
               then if gR e = [] then Inl (ValueError ''min() arg is an empty sequence'')
                    else let Rmin = Rlcfs - 20.0 * lq * (1 / 1000);
                             Rmin1 = (if Rmin < Min (set (gR e)) then Min (set (gR e)) else Rmin);
                             Rmax = Rlcfs + 20.0 * Sw * (1 / 1000);
                             Rmax1 = (if Rmax > RmAxis e then RmAxis e else Rmax)
                         in Inr (Rmin1, Rmax1)
               else let Rmin = Rlcfs - 20.0 * Sw * (1 / 1000);
                        Rmin1 = (if Rmin < RmAxis e then RmAxis e else Rmin);
                        Rmax = Rlcfs + 20.0 * lq * (1 / 1000)
                    in if gR e = [] then Inl (ValueError ''max() arg is an empty sequence'')
                       else Inr (Rmin1, if Rmax > Max (set (gR e)) then Max (set (gR e)) else Rmax))
           (\<lambda>(Rmin, Rmax).
           let Rg = linspace Rmin Rmax 1000;
               tag = (if truthy (HFS self) then ''hfs_mp'' else ''lfs_mp'');
               file = inputDir self @ ''/'' @ ''lam_'' @ tag @ ''.dat''
           in bind (if fs file \<noteq> None then Inr fs
                    else run tag (map (\<lambda>r. [r, 0.0, ZmAxis e]) Rg) fs) (\<lambda>fs1.
              case fs1 file of
                None \<Rightarrow> Inl UnboundLocalError
              | Some rows \<Rightarrow>
                  bind (genfromtxt rows) (\<lambda>lamdata.
                  bind (column 4 lamdata) (\<lambda>psimin'.
                    if psimin' = [] then Inl (ValueError ''attempt to get argmin of an empty sequence'')
                    else let idx = argmin (map (\<lambda>p. \<bar>p - pfr1\<bar>) psimin')
                         in if length Rg \<le> idx then Inl IndexError
                            else let msk = (if truthy (HFS self) then map (\<lambda>r. r > Rg ! idx) Rg
                                            else map (\<lambda>r. r < Rg ! idx) Rg)
                                 in bind (set_layer sci self psimin' lq Sw (lcfs self) (Fin 1) True) (\<lambda>(q_hat, q0tmp).
                                    bind (if True \<in> set msk
                                          then if length msk \<noteq> length psimin' then Inl IndexError
                                               else bind (set_layer sci self (select msk psimin') lq Sw 1.0 q0tmp False)
                                                      (\<lambda>(qp, qs). Inr (put_mask msk q_hat qp))
                                          else Inr q_hat) (\<lambda>q_hat1.
                                    Inr (q_hat1, map (\<lambda>r. psiFunc_ev e r (ZmAxis e)) Rg)))))))))"

definition scale_layer ::
  "scipy \<Rightarrow> files \<Rightarrow> tracer \<Rightarrow> heatflux3D \<Rightarrow> real \<Rightarrow> real \<Rightarrow> real \<Rightarrow> real option \<Rightarrow> error + float64" where
  "scale_layer sci fs run self lq Sw P' pfr' =
     bind (layer_shape sci fs run self lq Sw pfr') (\<lambda>(q_hat, psiN).
       power_balance sci (ep self) P' q_hat psiN)"

subsection \<open>heatflux\<close>

text \<open>
  \<open>heatflux_model\<close> is the dispatch on the model: it returns the object (with \<open>HFS\<close> set in
  the layer model), the normalised profile \<open>q\<close> and the scale \<open>q0\<close>. \<open>heatflux\<close> ends with
  the three assignments \<^verbatim>\<open>q *= q0\<close>, \<^verbatim>\<open>self.q[self.good] = q[self.good]\<close> and
  \<^verbatim>\<open>self.q += self.qBG\<close>. In the conductive model the quotient \<^verbatim>\<open>self.lqCN/self.S\<close> is one of
  Python floats.
\<close>

definition heatflux_model ::
  "scipy \<Rightarrow> files \<Rightarrow> tracer \<Rightarrow> heatflux3D \<Rightarrow> string \<Rightarrow> real
     \<Rightarrow> error + heatflux3D \<times> float64 list \<times> float64" where
  "heatflux_model sci fs run self DivCode powerFrac =
     (case model self of
        None \<Rightarrow> Inl TypeError
      | Some m \<Rightarrow>
          if m \<in> set [''Layer'', ''layer'', ''eich'', ''Eich'', ''heuristic'']
          then bind (if CHR ''O'' \<in> set DivCode then Inr False
                     else if CHR ''I'' \<in> set DivCode then Inr True
                     else Inl (ValueError ''PFC Divertor Code cannot be identified. Check your PFC input file''))
                 (\<lambda>HFS'.
                 let self1 = self\<lparr>HFS := Some HFS'\<rparr>
                 in bind (getq_layer sci self1) (\<lambda>qv.
                    bind (scale_layer sci fs run self1 (lqCN self1) (S self1) (Psol self1 * powerFrac) (Some 1.0))
                      (\<lambda>q0. Inr (self1, qv, q0))))
          else if m \<in> set [''conduct'', ''conductive'']
          then if length (Lc self) \<noteq> length (psimin self) then Inl IndexError
               else let L = mean (select (map (\<lambda>x. x > lcfs self) (psimin self)) (Lc self)) * Fin 1000
                    in if S self = 0 then Inl ZeroDivisionError
                       else let ratio = lqCN self / S self
                            in bind (getq_conduct self (psimin self) (kappa self) L True (Some (pfr self)) ratio)
                                 (\<lambda>qv.
                               bind (scale_conduct sci self (Psol self * powerFrac) (kappa self) L ratio)
                                 (\<lambda>q0. Inr (self, qv, q0)))
          else Inl (ValueError ''No valid model selected''))"

definition heatflux ::
  "scipy \<Rightarrow> files \<Rightarrow> tracer \<Rightarrow> heatflux3D \<Rightarrow> string \<Rightarrow> real \<Rightarrow> error + heatflux3D" where
  "heatflux sci fs run self DivCode powerFrac =
     bind (heatflux_model sci fs run self DivCode powerFrac) (\<lambda>(self1, qv, q0).
       let qv1 = map (\<lambda>v. v * q0) qv
       in if length (good self1) \<noteq> length (q self1) \<or> length (good self1) \<noteq> length qv1
          then Inl IndexError
          else let q1 = put_mask (good self1) (q self1) (select (good self1) qv1)
               in Inr (self1\<lparr>q := map (\<lambda>v. v + Fin (qBG self1)) q1\<rparr>))"

section \<open>Concrete objects used in the examples\<close>

text \<open>
  An equilibrium with circular flux surfaces around the axis at \<open>R = 1\<close>, \<open>Z = 0\<close>, and a
  \<^verbatim>\<open>heatflux3D\<close> object holding the defaults of \<^verbatim>\<open>setHFctl\<close>.
\<close>

definition example_ep :: equil where
  "example_ep = \<lparr>psiFunc_ev = (\<lambda>r z. (r - 1)\<^sup>2 + z\<^sup>2), psiSep = 1, psiAxis = 0, RmAxis = 1,
     ZmAxis = 0, R1 = 0.5, Xdim = 2, gR = [0.5, 1, 1.5, 2, 2.5]\<rparr>"

definition example_self :: heatflux3D where
  "example_self = setHFctl_defaults
     \<lparr>psimin = [], Lc = [], N = 1, q = [Fin 0], good = [True], pfr = [False], ep = example_ep,
      HFS = None, teProfileData = None, neProfileData = None, inputDir = ''.'',
      Lcmin = 0, lcfs = 0, lqCN = 0, S = 0, P = 0, coreRadFrac = 0, qBG = 0, kappa = 0,
      model = None, Psol = 0, fT = (\<lambda>x. 0), fn = (\<lambda>x. 0)\<rparr>"

text \<open>
  A decreasing positive function with the limits 2 and 0 of the complementary error
  function, to put a concrete function in the place of \<^verbatim>\<open>erfc\<close> in an example; on the
  infinities it has these limits.
\<close>

definition erfc_like :: "real \<Rightarrow> real" where
  "erfc_like x = 1 - tanh x"

fun erfc_float :: "float64 \<Rightarrow> float64" where
  "erfc_float (Fin x) = Fin (erfc_like x)"
| "erfc_float PInf = Fin 0"
| "erfc_float NInf = Fin 2"
| "erfc_float NaN = NaN"

text \<open>
  A driver with two submitted points, a result file of three rows in its working directory,
  and a tracer whose first two runs end without the success marker; at every poll \<^verbatim>\<open>ps\<close>
  shows the \<^verbatim>\<open>grep\<close> of the poll itself and no tracer.
\<close>

definition two_points :: plasma3D where
  "two_points = \<lparr>R = Some [1.0, 1.1], phi = Some [0, 0], Z = Some [-1.2, -1.2],
     psimin = None, Lc = None, cwd = ''/data''\<rparr>"

definition three_rows :: files where
  "three_rows = (\<lambda>f. None)(''/data/lam_.dat'' \<mapsto>
     [[1.0, 0, -1.2, 0.05, 0.9], [1.1, 0, -1.2, 0.2, 1.05], [1.2, 0, -1.2, 0.01, 10]])"

definition failing_twice :: tracer_world where
  "failing_twice = \<lparr>user = ''heat'', ps_aux = (\<lambda>k j. Some [''heat 4242 grep heatlaminar_mpi'']),
     logs = (\<lambda>k. [(''log_Master.dat'',
        Some (if k < 2 then [''Error''] else [''Program terminates normally'']))]),
     mpirun = (\<lambda>k. None)\<rparr>"

text \<open>
  Functions to put in the place of SciPy's in an example: the trapezoidal rule, which like
  Simpson's rule integrates a constant exactly, and the piecewise linear interpolant with
  constant extrapolation, which like the spline of SciPy is constant on constant samples.
\<close>

fun trapz :: "float64 list \<Rightarrow> real list \<Rightarrow> float64" where
  "trapz (y0 # y1 # ys) (x0 # x1 # xs) = Fin (x1 - x0) * (y0 + y1) / Fin 2 + trapz (y1 # ys) (x1 # xs)"
| "trapz ys xs = Fin 0"

fun interp :: "real list \<Rightarrow> real list \<Rightarrow> real \<Rightarrow> real" where
  "interp (x0 # x1 # xs) (y0 # y1 # ys) t =
     (if t \<le> x0 then y0
      else if t \<le> x1 then y0 + (y1 - y0) * (t - x0) / (x1 - x0)
      else interp (x1 # xs) (y1 # ys) t)"
| "interp [x0] [y0] t = y0"
| "interp xs ys t = 0"

definition linear_spline :: "real list \<Rightarrow> real list \<Rightarrow> error + (real \<Rightarrow> real)" where
  "linear_spline xs ys =
     (if length xs \<noteq> length ys \<or> length xs < 4 \<or> \<not> sorted_wrt (<) xs
      then Inl (ValueError ''x must be strictly increasing'')
      else Inr (interp xs ys))"

definition example_scipy :: scipy where
  "example_scipy = \<lparr>erfc = erfc_float, simps = trapz, UnivariateSpline = linear_spline\<rparr>"

text \<open>A tracer that cannot be started: it is not called when the result file is there.\<close>

definition no_tracer :: tracer where
  "no_tracer tag points fs = Inl OSError"

text \<open>
  The default configuration with the conductive model selected, and the object that
  \<^verbatim>\<open>initializeHF3D\<close> makes of it: the temperature profile is the closed form \<^verbatim>\<open>Tprofile\<close>
  with the pedestal temperature 2. \<open>default_flux\<close> is this object after
  \<^verbatim>\<open>updateLaminarData\<close> on the scenario of four points, of which the third did not
  converge, and after \<^verbatim>\<open>heatflux\<close>.
\<close>

definition default_input :: "heatflux3D \<Rightarrow> heatflux3D" where
  "default_input self = (setHFctl_defaults self)\<lparr>model := Some ''conduct''\<rparr>"

definition default_self :: heatflux3D where
  "default_self = (default_input example_self)
     \<lparr>Psol := 10, fT := (\<lambda>x. fst (Tprofile x 2 False)), fn := (\<lambda>x. 0.5 + x * 0)\<rparr>"

definition default_scenario :: heatflux3D where
  "default_scenario = default_self\<lparr>psimin := [0.9, 1.0, 10, 1.05], Lc := [0.05, 0.2, 0.01, 0.3], N := 4,
     q := [Fin 0, Fin 0, Fin 0, Fin 0], good := [True, True, False, True],
     pfr := [True, False, False, False]\<rparr>"

definition default_flux :: heatflux3D where
  "default_flux = default_scenario\<lparr>q := [NaN, NaN, Fin 0, NaN]\<rparr>"

text \<open>
  An input that selects the conductive model, a temperature profile sampled as
  \<open>[1, 1, 1, 1]\<close> and a background of 0.5, the other variables having the values of
  \<^verbatim>\<open>setHFctl\<close>; and the object that \<^verbatim>\<open>initializeHF3D\<close> makes of it.
\<close>

definition conduct_input :: "heatflux3D \<Rightarrow> heatflux3D" where
  "conduct_input self = (setHFctl_defaults self)
     \<lparr>model := Some ''conduct'', teProfileData := Some (Samples [1, 1, 1, 1]), qBG := 0.5\<rparr>"

definition conduct_self :: heatflux3D where
  "conduct_self = (conduct_input example_self)
     \<lparr>Psol := 10, fT := interp (linspace 0 1.1 4) [1, 1, 1, 1], fn := (\<lambda>x. 0.5 + x * 0)\<rparr>"

text \<open>
  The object \<open>conduct_self\<close> after \<^verbatim>\<open>updateLaminarData\<close> on the same scenario and after
  \<^verbatim>\<open>heatflux\<close>. \<open>scenario_shape\<close> is the value of the unscaled conductive profile in the
  scenario, where the mean connection length is 170 m.
\<close>

definition scenario_self :: heatflux3D where
  "scenario_self = conduct_self\<lparr>psimin := [0.9, 1.0, 10, 1.05], Lc := [0.05, 0.2, 0.01, 0.3], N := 4,
     q := [Fin 0, Fin 0, Fin 0, Fin 0], good := [True, True, False, True],
     pfr := [True, False, False, False]\<rparr>"

definition scenario_flux :: heatflux3D where
  "scenario_flux = scenario_self\<lparr>q := [Fin (10 / (0.7 * pi) + 0.5), Fin (10 / (0.7 * pi) + 0.5), Fin 0.5,
     Fin (10 / (0.7 * pi) + 0.5)]\<rparr>"

definition scenario_shape :: real where
  "scenario_shape = 2.0 / 7.0 * 2000 / 170 * (1 powr 3.5 - 0 powr 3.5) * (1000 powr 3.5) / 1000000"

text \<open>
  An equilibrium whose flux grows so slowly with the radius that it stays below 0.225 on
  the midplane grid of \<^verbatim>\<open>map_R_psi\<close>: the interpolant, constant beyond its knots, maps
  every flux from 0.225 on to the outer end \<open>R = 2.5\<close> of the grid, and the layer profile
  is flat with the value \<open>flat_peak\<close> before it is normalised.
\<close>

definition flat_ep :: equil where
  "flat_ep = \<lparr>psiFunc_ev = (\<lambda>r z. (r - 1)\<^sup>2 / 10 + z\<^sup>2), psiSep = 1, psiAxis = 0, RmAxis = 1,
     ZmAxis = 0, R1 = 0.5, Xdim = 2, gR = [0.5, 1, 1.5, 2, 2.5]\<rparr>"

definition flat_peak :: "real \<Rightarrow> real \<Rightarrow> real" where
  "flat_peak lq Sw = 0.5 * exp ((0.5 * Sw / lq)\<^sup>2) * erfc_like (0.5 * Sw / lq)"

text \<open>
  The layer model on this equilibrium with the default widths and a background of 0.5: the
  input, the object that \<^verbatim>\<open>initializeHF3D\<close> makes of it, the object after
  \<^verbatim>\<open>updateLaminarData\<close> on the scenario and after \<^verbatim>\<open>heatflux\<close> for an outer divertor, and the
  file system, in which the result file of the midplane run has 1000 rows with
  \<open>psimin = 1\<close>. \<open>layer_scale\<close> is the scale \<open>q0\<close> of the run: the flux grows from 0.21316 to
  0.225 along the midplane points, and the profile is 1 on all of them.
\<close>

definition layer_input :: "heatflux3D \<Rightarrow> heatflux3D" where
  "layer_input self = (setHFctl_defaults self)\<lparr>model := Some ''Layer'', qBG := 0.5\<rparr>"

definition layer_self :: heatflux3D where
  "layer_self = (layer_input (example_self\<lparr>ep := flat_ep\<rparr>))
     \<lparr>Psol := 10, fT := (\<lambda>x. fst (Tprofile x 2 False)), fn := (\<lambda>x. 0.5 + x * 0)\<rparr>"

definition layer_scenario :: heatflux3D where
  "layer_scenario = layer_self\<lparr>psimin := [0.9, 1.0, 10, 1.05], Lc := [0.05, 0.2, 0.01, 0.3], N := 4,
     q := [Fin 0, Fin 0, Fin 0, Fin 0], good := [True, True, False, True],
     pfr := [True, False, False, False]\<rparr>"

definition layer_files :: files where
  "layer_files = (\<lambda>f. None)(''./lam_lfs_mp.dat'' \<mapsto> replicate 1000 [0, 0, 0, 0, 1])"

definition layer_scale :: real where
  "layer_scale = 10 * 1 / \<bar>2 * pi * (1 * ((0.225 - 0.21316) * (1 - 0)))\<bar>"

definition layer_flux :: heatflux3D where
  "layer_flux = layer_scenario\<lparr>HFS := Some False,
     q := [Fin (layer_scale + 0.5), Fin (layer_scale + 0.5), Fin 0.5, Fin (layer_scale + 0.5)]\<rparr>"

section \<open>Facts about the NumPy operations\<close>

lemma np_where_set: "set (np_where c) = {i. i < length c \<and> c ! i}"
  by (auto simp: np_where_def)

lemma isGoodPoint_consistent:
  assumes "N self = length (psimin self)"
  shows "isGoodPoint self = Inr (map (\<lambda>x. x \<noteq> 10) (psimin self))"
proof -
  have "\<forall>i \<in> set (np_where (map (\<lambda>x. x = 10) (psimin self))). i < N self"
    using assms by (simp add: np_where_set)
  moreover have "map (\<lambda>i. i \<notin> set (np_where (map (\<lambda>x. x = 10) (psimin self)))) [0..<length (psimin self)]
      = map (\<lambda>x. x \<noteq> 10) (psimin self)"
    by (rule nth_equalityI) (simp_all add: np_where_set)
  ultimately show ?thesis
    using assms by (simp add: isGoodPoint_def Let_def)
qed

lemma isPFR_same_length:
  assumes "N self = length (psimin self)" and "length (Lc self) = length (psimin self)"
  shows "isPFR self = Inr (map2 (\<lambda>x l. x < 1 \<and> l < Lcmin self) (psimin self) (Lc self))"
proof -
  let ?c = "map2 (\<and>) (map (\<lambda>x. x < 1) (psimin self)) (map (\<lambda>x. x < Lcmin self) (Lc self))"
  have len: "length ?c = length (psimin self)"
    using assms by simp
  have c: "?c = map2 (\<lambda>x l. x < 1 \<and> l < Lcmin self) (psimin self) (Lc self)"
    using assms by (intro nth_equalityI) simp_all
  have idx: "\<forall>i \<in> set (np_where ?c). i < N self"
    using assms len by (simp add: np_where_set)
  have "map (\<lambda>i. i \<in> set (np_where ?c)) [0..<N self] = ?c"
    using assms len by (intro nth_equalityI) (simp_all add: np_where_set)
  with idx c show ?thesis
    using assms by (simp add: isPFR_def bind_def broadcast2_def Let_def)
qed

lemma updateLaminarData_same_length:
  assumes "length Lc' = length psimin'"
  shows "updateLaminarData self psimin' Lc' =
    Inr (self\<lparr>psimin := psimin', Lc := Lc', N := length psimin',
              q := replicate (length psimin') (Fin 0),
              good := map (\<lambda>x. x \<noteq> 10) psimin',
              pfr := map2 (\<lambda>x l. x < 1 \<and> l < Lcmin self) psimin' Lc'\<rparr>)"
  using assms
  by (simp add: updateLaminarData_def Let_def bind_def isGoodPoint_consistent isPFR_same_length)

section \<open>The masks of updateLaminarData\<close>

lemma isPFR_below_one:
  assumes "isPFR self = Inr p" and "N self = length (psimin self)" and "i < N self" and "p ! i"
  shows "psimin self ! i < 1"
proof -
  let ?a = "map (\<lambda>x. x < 1) (psimin self)" and ?b = "map (\<lambda>x. x < Lcmin self) (Lc self)"
  obtain c where c: "broadcast2 (\<and>) ?a ?b = Inr c"
    and p: "p = map (\<lambda>i. i \<in> set (np_where c)) [0..<N self]"
    using assms(1) by (auto simp: isPFR_def bind_def Let_def split: sum.splits if_splits)
  from p assms(3,4) have i: "i < length c" "c ! i"
    by (simp_all add: np_where_set)
  have "?a ! i"
  proof (cases "length ?a = length ?b")
    case True
    with c i show ?thesis by (auto simp: broadcast2_def)
  next
    case False
    note neq = this
    show ?thesis
    proof (cases "length ?a = 1")
      case True
      with assms(2,3) have "i = 0" by simp
      moreover from True have "?a \<noteq> []" by auto
      moreover from c neq True have ceq: "c = map ((\<and>) (hd ?a)) ?b"
        by (simp add: broadcast2_def)
      moreover from i ceq have "hd ?a"
        by (simp del: hd_map)
      ultimately show ?thesis
        by (simp add: hd_conv_nth del: hd_map)
    next
      case False
      with c i neq show ?thesis
        by (auto simp: broadcast2_def split: if_splits)
    qed
  qed
  then show ?thesis using assms(2,3) by simp
qed

lemma updateLaminarData_fields:
  assumes "updateLaminarData self ps lc = Inr self'"
  shows "psimin self' = ps \<and> N self' = length ps \<and> q self' = replicate (length ps) (Fin 0)
     \<and> good self' = map (\<lambda>x. x \<noteq> 10) ps \<and> Lc self' = lc
     \<and> isPFR (self\<lparr>psimin := ps, Lc := lc, N := length ps, q := replicate (length ps) (Fin 0), good := map (\<lambda>x. x \<noteq> 10) ps\<rparr>) = Inr (pfr self')"
  using assms
  by (auto simp: updateLaminarData_def Let_def bind_def isGoodPoint_consistent split: sum.splits)

text \<open>
  Claim C3. With \<open>Lcmin = 0.075\<close> and \<open>lcfs = 0.97\<close>, \<^verbatim>\<open>updateLaminarData\<close> on
  \<open>psimin = [0.9, 1.0, 10, 1.05]\<close> and \<open>Lc = [0.05, 0.2, 0.01, 0.3]\<close> returns with the good
  mask \<open>[True, True, False, True]\<close> and the PFR mask \<open>[True, False, False, False]\<close>.
\<close>

theorem scenario_masks:
  "\<exists>self'. updateLaminarData (self\<lparr>Lcmin := 0.075, lcfs := 0.97\<rparr>)
        [0.9, 1.0, 10, 1.05] [0.05, 0.2, 0.01, 0.3] = Inr self'
     \<and> good self' = [True, True, False, True]
     \<and> pfr self' = [True, False, False, False]"
  by (simp add: updateLaminarData_same_length)

theorem scenario_masks_witness:
  "\<exists>self'. updateLaminarData (example_self\<lparr>Lcmin := 0.075, lcfs := 0.97\<rparr>)
        [0.9, 1.0, 10, 1.05] [0.05, 0.2, 0.01, 0.3] = Inr self'
     \<and> good self' = [True, True, False, True]
     \<and> pfr self' = [True, False, False, False]"
  using scenario_masks [of example_self] .

text \<open>
  Claim C10. After a call of \<^verbatim>\<open>updateLaminarData\<close> that returns, every index flagged in the
  PFR mask is flagged in the good mask: its \<open>psimin\<close> is below 1, hence different from the
  sentinel 10. This holds for all input arrays, also those of different lengths that
  NumPy broadcasts.
\<close>

theorem pfr_implies_good:
  assumes "updateLaminarData self ps lc = Inr self'" and "i < N self'" and "pfr self' ! i"
  shows "good self' ! i \<and> psimin self' ! i \<noteq> 10 \<and> psimin self' ! i < 1"
proof -
  note f = updateLaminarData_fields[OF assms(1)]
  let ?s = "self\<lparr>psimin := ps, Lc := lc, N := length ps, q := replicate (length ps) (Fin 0), good := map (\<lambda>x. x \<noteq> 10) ps\<rparr>"
  have "psimin ?s ! i < 1"
    by (rule isPFR_below_one[of ?s "pfr self'"]) (use f assms in simp_all)
  then show ?thesis using f assms by simp
qed

theorem pfr_implies_good_witness:
  "updateLaminarData example_self [0.9, 10] [0.05, 0.01] = Inr
      (example_self\<lparr>psimin := [0.9, 10], Lc := [0.05, 0.01], N := 2, q := [Fin 0, Fin 0],
         good := [True, False], pfr := [True, False]\<rparr>)
   \<and> (0::nat) < 2 \<and> [True, False] ! 0
   \<and> good (example_self\<lparr>psimin := [0.9, 10], Lc := [0.05, 0.01], N := 2, q := [Fin 0, Fin 0],
         good := [True, False], pfr := [True, False]\<rparr>) ! 0"
proof -
  have u: "updateLaminarData example_self [0.9, 10] [0.05, 0.01] = Inr
      (example_self\<lparr>psimin := [0.9, 10], Lc := [0.05, 0.01], N := 2, q := [Fin 0, Fin 0],
         good := [True, False], pfr := [True, False]\<rparr>)"
    by (simp add: updateLaminarData_same_length example_self_def setHFctl_defaults_def
        setHFctl_def numeral_2_eq_2)
  show ?thesis
    using u pfr_implies_good [OF u, of 0] by simp
qed

section \<open>The closed forms: Tprofile and eich\_profile\<close>

lemma pedestal_g_decreasing: "x < y \<Longrightarrow> pedestal_g y < pedestal_g x"
  by (simp add: pedestal_g_def add_strict_mono)

lemma pedestal_denominator: "0 < pedestal_g (0.975 - 0.04) - pedestal_g 1.2"
  using pedestal_g_decreasing[of "0.975 - 0.04" "1.2"] by simp

lemma Tprofile_fst: "fst (Tprofile psi Tped d) = pedestal_T0n Tped * (pedestal_g psi - pedestal_g 1.2)"
  by (simp add: Tprofile_def Let_def pedestal_T0n_def pedestal_g_def mult.commute)

lemma pedestal_g_deriv:
  "(pedestal_g has_real_derivative (- (1 / 0.04) * (1 - (tanh (2 * (0.975 - x) / 0.04))\<^sup>2) - 4 * exp (- 2 * x))) (at x)"
  unfolding pedestal_g_def
  by (auto intro!: derivative_eq_intros simp: field_simps)


text \<open>
  Claim C5. For every \<open>psi\<close> and \<open>Tped\<close>, \<^verbatim>\<open>Tprofile(psi, Tped)\<close> is
  \<open>T0n * (g psi - g 1.2)\<close> with \<open>g x = 0.5 * tanh (2 * (0.975 - x) / 0.04) + 2 * exp (- 2 * x)\<close>,
  the constant \<open>T0n\<close> is such that the value at \<open>psi = 0.975 - 0.04\<close> is \<open>Tped\<close>, and with
  \<^verbatim>\<open>deriv = True\<close> the second value returned is \<open>T0n\<close> times the derivative of \<open>g\<close> at
  \<open>psi\<close>; without it no second value is returned.
\<close>

theorem Tprofile_closed_form:
  "fst (Tprofile psi Tped d) = pedestal_T0n Tped * (pedestal_g psi - pedestal_g 1.2)
   \<and> fst (Tprofile (0.975 - 0.04) Tped d) = Tped
   \<and> snd (Tprofile psi Tped False) = None
   \<and> (\<exists>g'. (pedestal_g has_real_derivative g') (at psi)
          \<and> snd (Tprofile psi Tped True) = Some (pedestal_T0n Tped * g'))"
proof (intro conjI)
  show "fst (Tprofile psi Tped d) = pedestal_T0n Tped * (pedestal_g psi - pedestal_g 1.2)"
    by (rule Tprofile_fst)
  show "fst (Tprofile (0.975 - 0.04) Tped d) = Tped"
    using pedestal_denominator by (simp add: Tprofile_fst pedestal_T0n_def)
  show "snd (Tprofile psi Tped False) = None"
    by (simp add: Tprofile_def Let_def)
  have "snd (Tprofile psi Tped True) = Some (- pedestal_T0n Tped / 0.04 *
      (1 - (tanh (2 * (0.975 - psi) / 0.04))\<^sup>2) - pedestal_T0n Tped * 4 * exp (- psi * 2))"
    by (simp add: Tprofile_def Let_def pedestal_T0n_def pedestal_g_def)
  also have "- pedestal_T0n Tped / 0.04 *
      (1 - (tanh (2 * (0.975 - psi) / 0.04))\<^sup>2) - pedestal_T0n Tped * 4 * exp (- psi * 2)
    = pedestal_T0n Tped *
      (- (1 / 0.04) * (1 - (tanh (2 * (0.975 - psi) / 0.04))\<^sup>2) - 4 * exp (- 2 * psi))"
    by (simp add: algebra_simps)
  finally have "snd (Tprofile psi Tped True) = Some (pedestal_T0n Tped *
      (- (1 / 0.04) * (1 - (tanh (2 * (0.975 - psi) / 0.04))\<^sup>2) - 4 * exp (- 2 * psi)))" .
  with pedestal_g_deriv [of psi]
  show "\<exists>g'. (pedestal_g has_real_derivative g') (at psi)
          \<and> snd (Tprofile psi Tped True) = Some (pedestal_T0n Tped * g')"
    by blast
qed

theorem Tprofile_closed_form_witness:
  "fst (Tprofile 1 2 False) = pedestal_T0n 2 * (pedestal_g 1 - pedestal_g 1.2)
   \<and> fst (Tprofile (0.975 - 0.04) 2 False) = 2"
  using Tprofile_closed_form [of 1 2 False] Tprofile_closed_form [of 1 2 False] by blast





section \<open>Reading the result file of the tracer\<close>

lemma genfromtxt_table:
  assumes "2 \<le> length rows" and "\<forall>r \<in> set rows. length r = n" and "2 \<le> n"
  shows "genfromtxt rows = Inr (Arr2 rows)"
proof -
  have ne: "filter (\<lambda>r. r \<noteq> []) rows = rows"
    using assms by (auto simp: filter_id_conv)
  have "rows \<noteq> []" using assms by auto
  then have "hd rows \<in> set rows" by simp
  with assms have "length (hd rows) = n" by blast
  with assms ne show ?thesis
    by (auto simp: genfromtxt_def Let_def)
qed

lemma genfromtxt_Arr2:
  assumes "genfromtxt rows = Inr (Arr2 t)"
  shows "t = filter (\<lambda>r. r \<noteq> []) rows"
  using assms by (auto simp: genfromtxt_def Let_def split: if_splits)

lemma readLaminar_found:
  assumes "fs (lam_file self tag path) = Some rows"
    and "readLaminar fs self tag path = Inr (self', out)"
  shows "self' = self\<lparr>plasma3D.Lc := Some (map (\<lambda>r. r ! 3) (filter (\<lambda>r. r \<noteq> []) rows)),
                      plasma3D.psimin := Some (map (\<lambda>r. r ! 4) (filter (\<lambda>r. r \<noteq> []) rows))\<rparr>
         \<and> out = []"
proof -
  from assms obtain lamdata c3 c4 where g: "genfromtxt rows = Inr lamdata"
    and c3: "column 3 lamdata = Inr c3" and c4: "column 4 lamdata = Inr c4"
    and r: "self' = self\<lparr>plasma3D.Lc := Some c3, plasma3D.psimin := Some c4\<rparr>" "out = []"
    by (auto simp: readLaminar_def Let_def bind_def split: sum.splits)
  from c3 obtain t where t: "lamdata = Arr2 t" by (cases lamdata) auto
  with g have "t = filter (\<lambda>r. r \<noteq> []) rows" by (simp add: genfromtxt_Arr2)
  with c3 c4 t r show ?thesis by (auto split: if_splits)
qed

lemma readLaminar_table:
  assumes "fs (lam_file self tag path) = Some rows"
    and "2 \<le> length rows" and "\<forall>r \<in> set rows. length r = n" and "5 \<le> n"
  shows "readLaminar fs self tag path =
     Inr (self\<lparr>plasma3D.Lc := Some (map (\<lambda>r. r ! 3) rows),
               plasma3D.psimin := Some (map (\<lambda>r. r ! 4) rows)\<rparr>, [])"
proof -
  have g: "genfromtxt rows = Inr (Arr2 rows)"
    using assms by (intro genfromtxt_table[where n = n]) auto
  have "rows \<noteq> []" using assms by auto
  then have "hd rows \<in> set rows" by simp
  with assms have "length (hd rows) = n" by blast
  with assms g show ?thesis
    by (simp add: readLaminar_def Let_def bind_def)
qed

lemma updatePoints_two_points:
  "updatePoints (\<lambda>f. None) (two_points\<lparr>R := None, phi := None, Z := None\<rparr>) [1.0, 1.1] [0, 0] [-1.2, -1.2]
     = Inr (two_points, (\<lambda>f. None)(''/data/points3DHF.dat'' \<mapsto> [[1.0, 0, -1.2], [1.1, 0, -1.2]]))"
  by (simp add: updatePoints_def writePoints_def two_points_def bind_def Let_def upt_rec numeral_2_eq_2)

lemma three_rows_file:
  "three_rows (lam_file two_points None None) =
     Some [[1.0, 0, -1.2, 0.05, 0.9], [1.1, 0, -1.2, 0.2, 1.05], [1.2, 0, -1.2, 0.01, 10]]"
  by (simp add: three_rows_def lam_file_def two_points_def)

lemma readLaminar_three_rows:
  "readLaminar three_rows two_points None None =
       Inr (two_points\<lparr>plasma3D.Lc := Some [0.05, 0.2, 0.01], plasma3D.psimin := Some [0.9, 1.05, 10]\<rparr>, [])"
  using readLaminar_table [of three_rows two_points None None _ 5, OF three_rows_file] by simp

text \<open>
  Claim C7, as stated, fails: with two submitted points and a result file of three rows,
  \<^verbatim>\<open>readLaminar\<close> returns normally and stores arrays of three entries.
\<close>

theorem readLaminar_mismatch_counterexample:
  "map_option length (R two_points) = Some 2
   \<and> readLaminar three_rows two_points None None =
       Inr (two_points\<lparr>plasma3D.Lc := Some [0.05, 0.2, 0.01], plasma3D.psimin := Some [0.9, 1.05, 10]\<rparr>, [])"
  using readLaminar_three_rows by (simp add: two_points_def)

text \<open>
  Claim C7, amended. \<^verbatim>\<open>readLaminar\<close> does not compare the result file with the submitted
  points: whenever it returns on an existing file, \<open>Lc\<close> and \<open>psimin\<close> have one entry for
  each data row of the file, neither truncated nor padded to the number of points, and
  \<open>R\<close>, \<open>phi\<close> and \<open>Z\<close> are unchanged.
\<close>

theorem readLaminar_stores_every_row:
  assumes "fs (lam_file self tag path) = Some rows"
    and "readLaminar fs self tag path = Inr (self', out)"
  shows "map_option length (plasma3D.Lc self') = Some (length (filter (\<lambda>r. r \<noteq> []) rows))
       \<and> map_option length (plasma3D.psimin self') = Some (length (filter (\<lambda>r. r \<noteq> []) rows))
       \<and> R self' = R self \<and> phi self' = phi self \<and> Z self' = Z self"
  using readLaminar_found [OF assms] by simp

theorem readLaminar_stores_every_row_witness:
  "three_rows (lam_file two_points None None) =
     Some [[1.0, 0, -1.2, 0.05, 0.9], [1.1, 0, -1.2, 0.2, 1.05], [1.2, 0, -1.2, 0.01, 10]]
   \<and> readLaminar three_rows two_points None None =
       Inr (two_points\<lparr>plasma3D.Lc := Some [0.05, 0.2, 0.01], plasma3D.psimin := Some [0.9, 1.05, 10]\<rparr>, [])
   \<and> map_option length (plasma3D.Lc
         (two_points\<lparr>plasma3D.Lc := Some [0.05, 0.2, 0.01], plasma3D.psimin := Some [0.9, 1.05, 10]\<rparr>)) = Some 3
   \<and> R (two_points\<lparr>plasma3D.Lc := Some [0.05, 0.2, 0.01], plasma3D.psimin := Some [0.9, 1.05, 10]\<rparr>)
       = Some [1.0, 1.1]"
  using three_rows_file readLaminar_three_rows
    readLaminar_stores_every_row [OF three_rows_file readLaminar_three_rows]
  by (simp add: two_points_def)

text \<open>
  Claim C8, as stated, fails: on a missing result file \<^verbatim>\<open>readLaminar\<close> raises nothing; it
  prints a line and returns with the object unchanged.
\<close>

theorem readLaminar_missing_file_counterexample:
  "readLaminar (\<lambda>f. None) two_points None None =
     Inr (two_points, [''MAFOT output file: /data/lam_.dat not found!''])"
  by (simp add: readLaminar_def lam_file_def two_points_def)

text \<open>
  Claim C8, amended. When the file \<^verbatim>\<open>lam_<tag>.dat\<close> does not exist, \<^verbatim>\<open>readLaminar\<close> prints
  that it was not found and returns normally, leaving the object as it was. When the file
  exists and the method returns, \<open>Lc\<close> is column 3 and \<open>psimin\<close> column 4 (counted from 0)
  of the table; it does return on every table of at least two rows with the same number,
  at least five, of columns.
\<close>

theorem readLaminar_missing_or_columns:
  "(fs (lam_file self tag path) = None \<longrightarrow>
      readLaminar fs self tag path =
        Inr (self, [''MAFOT output file: '' @ lam_file self tag path @ '' not found!'']))
   \<and> (\<forall>rows self' out. fs (lam_file self tag path) = Some rows
        \<and> readLaminar fs self tag path = Inr (self', out) \<longrightarrow>
          plasma3D.Lc self' = Some (map (\<lambda>r. r ! 3) (filter (\<lambda>r. r \<noteq> []) rows))
        \<and> plasma3D.psimin self' = Some (map (\<lambda>r. r ! 4) (filter (\<lambda>r. r \<noteq> []) rows)))
   \<and> (\<forall>rows n. fs (lam_file self tag path) = Some rows \<and> 2 \<le> length rows
        \<and> (\<forall>r \<in> set rows. length r = n) \<and> 5 \<le> n \<longrightarrow>
          readLaminar fs self tag path =
            Inr (self\<lparr>plasma3D.Lc := Some (map (\<lambda>r. r ! 3) rows),
                      plasma3D.psimin := Some (map (\<lambda>r. r ! 4) rows)\<rparr>, []))"
proof (intro conjI allI impI)
  assume "fs (lam_file self tag path) = None"
  then show "readLaminar fs self tag path =
        Inr (self, [''MAFOT output file: '' @ lam_file self tag path @ '' not found!''])"
    by (simp add: readLaminar_def Let_def)
next
  fix rows self' out
  assume a: "fs (lam_file self tag path) = Some rows \<and> readLaminar fs self tag path = Inr (self', out)"
  with readLaminar_found [of fs self tag path rows self' out]
  show "plasma3D.Lc self' = Some (map (\<lambda>r. r ! 3) (filter (\<lambda>r. r \<noteq> []) rows))"
    and "plasma3D.psimin self' = Some (map (\<lambda>r. r ! 4) (filter (\<lambda>r. r \<noteq> []) rows))"
    by simp_all
next
  fix rows n
  assume "fs (lam_file self tag path) = Some rows \<and> 2 \<le> length rows
        \<and> (\<forall>r \<in> set rows. length r = n) \<and> 5 \<le> n"
  then show "readLaminar fs self tag path =
            Inr (self\<lparr>plasma3D.Lc := Some (map (\<lambda>r. r ! 3) rows),
                      plasma3D.psimin := Some (map (\<lambda>r. r ! 4) rows)\<rparr>, [])"
    using readLaminar_table [of fs self tag path rows n] by blast
qed

theorem readLaminar_missing_or_columns_witness:
  "readLaminar (\<lambda>f. None) two_points (Some ''run1'') None =
      Inr (two_points, [''MAFOT output file: /data/lam_run1.dat not found!''])
   \<and> readLaminar three_rows two_points None None =
       Inr (two_points\<lparr>plasma3D.Lc := Some [0.05, 0.2, 0.01], plasma3D.psimin := Some [0.9, 1.05, 10]\<rparr>, [])"
proof -
  have "readLaminar (\<lambda>f. None) two_points (Some ''run1'') None =
      Inr (two_points, [''MAFOT output file: /data/lam_run1.dat not found!''])"
    using readLaminar_missing_or_columns [of "\<lambda>f. None" two_points "Some ''run1''" None]
    by (simp add: lam_file_def two_points_def)
  moreover have "readLaminar three_rows two_points None None =
       Inr (two_points\<lparr>plasma3D.Lc := Some [0.05, 0.2, 0.01], plasma3D.psimin := Some [0.9, 1.05, 10]\<rparr>, [])"
    by (rule readLaminar_three_rows)
  ultimately show ?thesis by simp
qed


section \<open>Waiting for the tracer\<close>

lemma poll_finds:
  assumes "\<forall>i < d. running (j + i) = Some True" and "running (j + d) = Some False"
  shows "poll running j = Some (Inr (j + d))"
  using assms
proof (induction d arbitrary: j)
  case 0
  then show ?case by (subst poll.simps) simp
next
  case (Suc d)
  have "\<forall>i < d. running (Suc j + i) = Some True"
  proof (intro allI impI)
    fix i assume "i < d"
    then have "running (j + Suc i) = Some True" using Suc.prems(1) by auto
    then show "running (Suc j + i) = Some True" by simp
  qed
  moreover have "running (Suc j + d) = Some False" using Suc.prems(2) by simp
  ultimately have "poll running (Suc j) = Some (Inr (Suc j + d))" by (rule Suc.IH)
  moreover have "running j = Some True" using Suc.prems(1) [rule_format, of 0] by simp
  ultimately show ?case by (subst poll.simps) simp
qed

lemma wait2finish_restarts:
  assumes polls: "\<forall>k. length launched \<le> k \<and> k \<le> n \<longrightarrow>
        (\<exists>j. poll (\<lambda>j. map_option (isProcessRunning (user w)) (ps_aux w k j)) 0 = Some (Inr j))"
    and fails: "\<forall>k. length launched \<le> k \<and> k < n \<longrightarrow>
        (\<exists>c. isComplete (logs w k) = Inr c \<and> \<not> truthy c) \<and> mpirun w k = None"
    and ok: "isComplete (logs w n) = Inr (Some True)"
    and le: "length launched \<le> n"
  shows "wait2finish w frames nproc tag launched =
     (if n - length launched < frames
      then Some (launched @ replicate (n - length launched) (nproc, tag), None)
      else Some (launched @ replicate frames (nproc, tag), Some RecursionError))"
  using assms
proof (induction frames arbitrary: launched)
  case 0
  show ?case by (subst wait2finish.simps) simp
next
  case (Suc f)
  from Suc.prems(1,4) obtain j where
    p: "poll (\<lambda>j. map_option (isProcessRunning (user w)) (ps_aux w (length launched) j)) 0 = Some (Inr j)"
    by blast
  show ?case
  proof (cases "length launched = n")
    case True
    with p Suc.prems(3) show ?thesis
      by (subst wait2finish.simps) (simp add: truthy_def)
  next
    case False
    with Suc.prems(4) have lt: "length launched < n" by simp
    with Suc.prems(2) obtain c where c: "isComplete (logs w (length launched)) = Inr c" "\<not> truthy c"
      and m: "mpirun w (length launched) = None"
      by blast
    have ih: "wait2finish w f nproc tag (launched @ [(nproc, tag)]) =
       (if n - length (launched @ [(nproc, tag)]) < f
        then Some ((launched @ [(nproc, tag)]) @ replicate (n - length (launched @ [(nproc, tag)])) (nproc, tag), None)
        else Some ((launched @ [(nproc, tag)]) @ replicate f (nproc, tag), Some RecursionError))"
    proof (rule Suc.IH)
      show "\<forall>k. length (launched @ [(nproc, tag)]) \<le> k \<and> k \<le> n \<longrightarrow>
        (\<exists>j. poll (\<lambda>j. map_option (isProcessRunning (user w)) (ps_aux w k j)) 0 = Some (Inr j))"
        using Suc.prems(1) by simp
      show "\<forall>k. length (launched @ [(nproc, tag)]) \<le> k \<and> k < n \<longrightarrow>
        (\<exists>c. isComplete (logs w k) = Inr c \<and> \<not> truthy c) \<and> mpirun w k = None"
        using Suc.prems(2) by simp
      show "isComplete (logs w n) = Inr (Some True)" by (rule Suc.prems(3))
      show "length (launched @ [(nproc, tag)]) \<le> n" using lt by simp
    qed
    have s: "n - length launched = Suc (n - Suc (length launched))" using lt by simp
    have "wait2finish w (Suc f) nproc tag launched = wait2finish w f nproc tag (launched @ [(nproc, tag)])"
      using p c m by (subst wait2finish.simps) simp
    also note ih
    finally show ?thesis
      using lt by (simp add: s replicate_app_Cons_same)
  qed
qed

lemma log_strings:
  "sublist ''_Master.dat'' ''log_Master.dat''"
  "\<not> sublist ''Program terminates normally'' ''Error''"
  "sublist ''Program terminates normally'' ''Program terminates normally''"
  "\<not> sublist ''mpirun'' ''heat 4242 grep heatlaminar_mpi''"
  by code_simp+

lemma isComplete_failing_twice:
  "isComplete (logs failing_twice k) = Inr (Some (\<not> k < 2))"
  by (simp add: isComplete_def failing_twice_def log_strings)

lemma poll_failing_twice:
  "poll (\<lambda>j. map_option (isProcessRunning (user failing_twice)) (ps_aux failing_twice k j)) 0 = Some (Inr 0)"
  by (subst poll.simps) (simp add: isProcessRunning_def failing_twice_def log_strings)

lemma mpirun_failing_twice: "mpirun failing_twice k = None"
  by (simp add: failing_twice_def)

text \<open>
  Claim C9, as stated, fails: when the first two runs end without the success marker,
  \<^verbatim>\<open>wait2finish\<close> launches two restarts and then returns normally.
\<close>

theorem wait2finish_two_restarts_counterexample:
  "wait2finish failing_twice 1000 4 ''run1'' [] = Some ([(4, ''run1''), (4, ''run1'')], None)"
proof -
  have "wait2finish failing_twice 1000 4 ''run1'' [] =
     (if 2 - length ([] :: (nat \<times> string) list) < 1000
      then Some ([] @ replicate (2 - length ([] :: (nat \<times> string) list)) (4, ''run1''), None)
      else Some ([] @ replicate 1000 (4, ''run1''), Some RecursionError))"
  proof (rule wait2finish_restarts [where n = 2])
    show "\<forall>k. length ([] :: (nat \<times> string) list) \<le> k \<and> k \<le> 2 \<longrightarrow>
        (\<exists>j. poll (\<lambda>j. map_option (isProcessRunning (user failing_twice)) (ps_aux failing_twice k j)) 0
           = Some (Inr j))"
      by (simp add: poll_failing_twice)
    show "\<forall>k. length ([] :: (nat \<times> string) list) \<le> k \<and> k < 2 \<longrightarrow>
        (\<exists>c. isComplete (logs failing_twice k) = Inr c \<and> \<not> truthy c) \<and> mpirun failing_twice k = None"
      by (simp add: isComplete_failing_twice truthy_def mpirun_failing_twice)
    show "isComplete (logs failing_twice 2) = Inr (Some True)"
      by (simp add: isComplete_failing_twice)
  qed simp
  then show ?thesis by (simp add: numeral_2_eq_2)
qed

text \<open>
  Claim C9, amended. \<^verbatim>\<open>wait2finish\<close> has no bound of its own on the restarts: it restarts
  the tracer after every run that ends without the success marker and waits again. If each
  of the runs \<open>0, \<dots>, n\<close> ends, the first \<open>n\<close> of them without the marker and run \<open>n\<close> with
  it, and the tracer can be started each time, then the method returns normally after
  exactly \<open>n\<close> restarts provided that its \<open>n + 1\<close> nested activations fit under the
  recursion limit of the interpreter (\<open>n < frames\<close>); otherwise it launches as many restarts
  as activations fit and ends with \<^verbatim>\<open>RecursionError\<close>.
\<close>

theorem wait2finish_restarts_until_complete:
  assumes "\<forall>k \<le> n. \<exists>j. poll (\<lambda>j. map_option (isProcessRunning (user w)) (ps_aux w k j)) 0 = Some (Inr j)"
    and "\<forall>k < n. (\<exists>c. isComplete (logs w k) = Inr c \<and> \<not> truthy c) \<and> mpirun w k = None"
    and "isComplete (logs w n) = Inr (Some True)"
  shows "(n < frames \<longrightarrow>
            wait2finish w frames nproc tag [] = Some (replicate n (nproc, tag), None))
       \<and> (frames \<le> n \<longrightarrow>
            wait2finish w frames nproc tag [] = Some (replicate frames (nproc, tag), Some RecursionError))"
  using wait2finish_restarts [of "[]" n w frames nproc tag] assms by simp

theorem wait2finish_restarts_until_complete_witness:
  "isComplete (logs failing_twice 0) = Inr (Some False)
   \<and> isComplete (logs failing_twice 1) = Inr (Some False)
   \<and> isComplete (logs failing_twice 2) = Inr (Some True)
   \<and> mpirun failing_twice 0 = None \<and> mpirun failing_twice 1 = None
   \<and> wait2finish failing_twice 1000 10 ''a'' [] = Some ([(10, ''a''), (10, ''a'')], None)
   \<and> wait2finish failing_twice 2 10 ''a'' [] = Some ([(10, ''a''), (10, ''a'')], Some RecursionError)"
proof -
  have a: "\<forall>k \<le> 2. \<exists>j. poll (\<lambda>j. map_option (isProcessRunning (user failing_twice))
      (ps_aux failing_twice k j)) 0 = Some (Inr j)"
    by (simp add: poll_failing_twice)
  have b: "\<forall>k < 2. (\<exists>c. isComplete (logs failing_twice k) = Inr c \<and> \<not> truthy c)
      \<and> mpirun failing_twice k = None"
    by (simp add: isComplete_failing_twice truthy_def mpirun_failing_twice)
  have c: "isComplete (logs failing_twice 2) = Inr (Some True)"
    by (simp add: isComplete_failing_twice)
  have "mpirun failing_twice 0 = None" "mpirun failing_twice 1 = None"
    by (simp_all add: mpirun_failing_twice)
  then show ?thesis
    using wait2finish_restarts_until_complete [OF a b c, of 1000 10 "''a''"]
      wait2finish_restarts_until_complete [OF a b c, of 2 10 "''a''"]
    by (simp add: numeral_2_eq_2 isComplete_failing_twice)
qed


section \<open>The flux returned by heatflux\<close>

lemma put_mask_length [simp]: "length (put_mask m xs vs) = length xs"
  by (induction m xs vs rule: put_mask.induct) (auto split: list.splits)

lemma put_mask_unmasked:
  "i < length xs \<Longrightarrow> i < length m \<Longrightarrow> \<not> m ! i \<Longrightarrow> put_mask m xs vs ! i = xs ! i"
proof (induction m xs vs arbitrary: i rule: put_mask.induct)
  case (1 m ms x xs vs)
  then show ?case
    by (cases i) (auto split: list.splits)
qed auto

lemma put_mask_set: "set (put_mask m xs vs) \<subseteq> set xs \<union> set vs"
proof (induction m xs vs rule: put_mask.induct)
  case (1 m ms x xs vs)
  show ?case
  proof (cases m)
    case True
    with 1 show ?thesis by (cases vs) auto
  next
    case False
    with 1 show ?thesis by auto
  qed
qed auto

lemma select_set: "set (select m xs) \<subseteq> set xs"
  by (auto simp: select_def dest: set_zip_rightD)

lemma bind_Inr_iff: "bind m f = Inr y \<longleftrightarrow> (\<exists>v. m = Inr v \<and> f v = Inr y)"
  by (cases m) (simp_all add: bind_def)

lemma bindE:
  assumes "bind m f = Inr y"
  obtains v where "m = Inr v" and "f v = Inr y"
  using assms by (auto simp: bind_Inr_iff)

lemma bind_Inr: "bind (Inr v) f = f v"
  by (simp add: bind_def)

lemma heatflux_model_object:
  assumes "heatflux_model sci fs run self DivCode powerFrac = Inr (self1, qv, q0)"
  shows "self1 = self\<lparr>HFS := HFS self1\<rparr>"
  using assms
  by (auto simp: heatflux_model_def bind_Inr_iff Let_def split: option.splits if_splits)

lemma heatflux_result:
  assumes "heatflux sci fs run self DivCode powerFrac = Inr self2"
  obtains qv q0 where "heatflux_model sci fs run self DivCode powerFrac = Inr (self2\<lparr>q := q self\<rparr>, qv, q0)"
    and "length (good self) = length (q self)" and "length qv = length (q self)"
    and "q self2 = map (\<lambda>v. v + Fin (qBG self)) (put_mask (good self) (q self) (select (good self) (map (\<lambda>v. v * q0) qv)))"
    and "qBG self2 = qBG self" and "good self2 = good self"
proof -
  from assms obtain self1 qv q0 where m: "heatflux_model sci fs run self DivCode powerFrac = Inr (self1, qv, q0)"
    and len: "length (good self1) = length (q self1)" "length (good self1) = length qv"
    and r: "self2 = self1\<lparr>q := map (\<lambda>v. v + Fin (qBG self1))
        (put_mask (good self1) (q self1) (select (good self1) (map (\<lambda>v. v * q0) qv)))\<rparr>"
    by (auto simp: heatflux_def bind_Inr_iff Let_def split: if_splits)
  note o = heatflux_model_object [OF m]
  have f: "good self1 = good self" "q self1 = q self" "qBG self1 = qBG self"
    by (subst o, simp)+
  have "self2\<lparr>q := q self\<rparr> = self1"
    using r f by simp
  with m len r f show ?thesis
    by (intro that [of qv q0]) simp_all
qed

text \<open>
  Claim C1. After \<^verbatim>\<open>updateLaminarData\<close> and a call of \<^verbatim>\<open>heatflux\<close> that returns, whatever the
  model, a point whose \<open>psimin\<close> is the sentinel 10 has the flux \<open>qBG\<close> exactly: it is not
  in the good mask, so its entry of \<^verbatim>\<open>self.q\<close> is still the zero of \<^verbatim>\<open>updateLaminarData\<close>
  when \<open>qBG\<close> is added, whatever the model has computed for it and for the other points
  (be it \<^verbatim>\<open>nan\<close>).
\<close>

theorem sentinel_point_gets_background:
  assumes "updateLaminarData self ps lc = Inr self1"
    and "heatflux sci fs run self1 DivCode powerFrac = Inr self2"
    and "i < length ps" and "ps ! i = 10"
  shows "q self2 ! i = Fin (qBG self2)"
proof -
  note f = updateLaminarData_fields [OF assms(1)]
  from assms(2) obtain qv q0 where
    q2: "q self2 = map (\<lambda>v. v + Fin (qBG self1))
      (put_mask (good self1) (q self1) (select (good self1) (map (\<lambda>v. v * q0) qv)))"
    and bg: "qBG self2 = qBG self1"
    by (rule heatflux_result)
  have "\<not> good self1 ! i" using f assms(3,4) by simp
  moreover have "i < length (q self1)" "i < length (good self1)" using f assms(3) by simp_all
  ultimately have "put_mask (good self1) (q self1) (select (good self1) (map (\<lambda>v. v * q0) qv)) ! i = q self1 ! i"
    by (intro put_mask_unmasked)
  also have "\<dots> = Fin 0" using f assms(3) by simp
  finally show ?thesis
    using q2 bg \<open>i < length (q self1)\<close> by simp
qed


section \<open>Facts about the floating point values\<close>

lemma nan_right [simp]: "x + NaN = NaN" "x * NaN = NaN" "x / NaN = NaN" "x - NaN = NaN"
  by (cases x; simp add: minus_float64_def)+

lemma nan_left [simp]: "NaN + x = NaN" "NaN * x = NaN" "NaN / x = NaN" "NaN - x = NaN"
  by (simp_all add: minus_float64_def)

lemma minus_Fin [simp]: "Fin a - Fin b = Fin (a - b)"
  by (simp add: minus_float64_def)

lemma not_negative_simps [simp]:
  "not_negative (Fin r) \<longleftrightarrow> 0 \<le> r" "not_negative NaN" "not_negative PInf" "\<not> not_negative NInf"
  by (simp_all add: not_negative_def)










lemma fold_max_mem: "fold (\<lambda>x m. if m < x then x else m) xs m0 \<in> insert m0 (set xs)"
  by (induction xs arbitrary: m0) auto


section \<open>The flux is not below the background\<close>

lemma linspace_length [simp]: "length (linspace a b n) = n"
  by (simp add: linspace_def)





lemma amax_mem: "xs \<noteq> [] \<Longrightarrow> amax xs \<in> set xs"
proof (cases "NaN \<in> set xs")
  case True
  then show ?thesis by (simp add: amax_def)
next
  case False
  assume "xs \<noteq> []"
  then obtain x rest where xs: "xs = x # rest" by (cases xs) auto
  show ?thesis
  proof (cases "NInf < x")
    case True
    then have "amax xs = fold (\<lambda>x m. if m < x then x else m) rest x"
      using False by (simp add: amax_def xs)
    also have "\<dots> \<in> insert x (set rest)" by (rule fold_max_mem)
    finally show ?thesis by (simp add: xs)
  next
    case n: False
    have "x \<noteq> NaN" using False xs by auto
    with n have x: "x = NInf" by (cases x) simp_all
    have "amax xs = fold (\<lambda>x m. if m < x then x else m) rest NInf"
      using False n by (simp add: amax_def xs)
    also have "\<dots> \<in> insert NInf (set rest)" by (rule fold_max_mem)
    finally show ?thesis by (simp add: xs x)
  qed
qed





lemma power_balance_value:
  assumes "power_balance sci e P' q_hat psiN = Inr q0"
  shows "q0 = Fin P' /
     (if Fin (2 * pi) * simps sci q_hat (map (\<lambda>p. p * (psiSep e - psiAxis e) + psiAxis e) psiN) < Fin 0
      then - (Fin (2 * pi) * simps sci q_hat (map (\<lambda>p. p * (psiSep e - psiAxis e) + psiAxis e) psiN))
      else Fin (2 * pi) * simps sci q_hat (map (\<lambda>p. p * (psiSep e - psiAxis e) + psiAxis e) psiN))"
    and "length q_hat = length psiN"
  using assms by (auto simp: power_balance_def Let_def split: if_splits)



lemma conduct_q_length [simp]: "length (conduct_q k L T) = length T"
  by (simp add: conduct_q_def)

lemma heatflux_model_cases:
  assumes hm: "heatflux_model sci fs run self dc w = Inr (s1, qv, q0)"
  obtains (layer) side where
      "model self \<in> Some ` set [''Layer'', ''layer'', ''eich'', ''Eich'', ''heuristic'']"
      "s1 = self\<lparr>HFS := Some side\<rparr>"
      "getq_layer sci s1 = Inr qv"
      "scale_layer sci fs run s1 (lqCN self) (S self) (Psol self * w) (Some 1.0) = Inr q0"
    | (conduct)
      "model self \<in> Some ` set [''conduct'', ''conductive'']"
      "s1 = self" "length (Lc self) = length (psimin self)" "S self \<noteq> 0"
      "getq_conduct self (psimin self) (kappa self)
          (mean (select (map (\<lambda>x. x > lcfs self) (psimin self)) (Lc self)) * Fin 1000)
          True (Some (pfr self)) (lqCN self / S self) = Inr qv"
      "scale_conduct sci self (Psol self * w) (kappa self)
          (mean (select (map (\<lambda>x. x > lcfs self) (psimin self)) (Lc self)) * Fin 1000)
          (lqCN self / S self) = Inr q0"
proof -
  from hm obtain m where m: "model self = Some m"
    by (auto simp: heatflux_model_def split: option.splits)
  show ?thesis
  proof (cases "m \<in> set [''Layer'', ''layer'', ''eich'', ''Eich'', ''heuristic'']")
    case True
    with hm m obtain side where
      "getq_layer sci (self\<lparr>HFS := Some side\<rparr>) = Inr qv"
      "scale_layer sci fs run (self\<lparr>HFS := Some side\<rparr>) (lqCN self) (S self) (Psol self * w) (Some 1.0) = Inr q0"
      "s1 = self\<lparr>HFS := Some side\<rparr>"
      by (auto simp: heatflux_model_def bind_Inr_iff Let_def split: if_splits)
    moreover have "model self \<in> Some ` set [''Layer'', ''layer'', ''eich'', ''Eich'', ''heuristic'']"
      using m True by blast
    ultimately show ?thesis by (intro layer [of side]) simp_all
  next
    case False
    define L where "L = mean (select (map (\<lambda>x. x > lcfs self) (psimin self)) (Lc self)) * Fin 1000"
    have h: "(if m \<in> set [''conduct'', ''conductive'']
           then if length (Lc self) \<noteq> length (psimin self) then Inl IndexError
                else if S self = 0 then Inl ZeroDivisionError
                else bind (getq_conduct self (psimin self) (kappa self) L True (Some (pfr self))
                             (lqCN self / S self))
                       (\<lambda>qv. bind (scale_conduct sci self (Psol self * w) (kappa self) L
                                      (lqCN self / S self))
                          (\<lambda>q0. Inr (self, qv, q0)))
           else Inl (ValueError ''No valid model selected'')) = Inr (s1, qv, q0)"
      using hm unfolding heatflux_model_def L_def
      by (simp only: m option.case False if_False Let_def)
    then have c: "m \<in> set [''conduct'', ''conductive'']"
      and len: "length (Lc self) = length (psimin self)" and s: "S self \<noteq> 0"
      by (simp_all only: split: if_splits) simp_all
    from h have "bind (getq_conduct self (psimin self) (kappa self) L True (Some (pfr self))
                             (lqCN self / S self))
                       (\<lambda>qv. bind (scale_conduct sci self (Psol self * w) (kappa self) L
                                      (lqCN self / S self))
                          (\<lambda>q0. Inr (self, qv, q0))) = Inr (s1, qv, q0)"
      by (simp only: split: if_splits) simp_all
    then obtain qv' q0' where
      g': "getq_conduct self (psimin self) (kappa self) L True (Some (pfr self)) (lqCN self / S self) = Inr qv'"
      and sc': "scale_conduct sci self (Psol self * w) (kappa self) L (lqCN self / S self) = Inr q0'"
      and eq: "Inr (self, qv', q0') = (Inr (s1, qv, q0) :: error + heatflux3D \<times> float64 list \<times> float64)"
      by (elim bindE)
    from eq have e: "s1 = self" "qv' = qv" "q0' = q0" by simp_all
    have "model self \<in> Some ` set [''conduct'', ''conductive'']" using m c by blast
    then show ?thesis
      using e(1) len s g' sc' unfolding e(2,3) L_def by (rule conduct)
  qed
qed


lemma updateLaminarData_config:
  assumes "updateLaminarData self ps lc = Inr s2"
  shows "Psol s2 = Psol self" "P s2 = P self" "coreRadFrac s2 = coreRadFrac self"
    "kappa s2 = kappa self" "model s2 = model self" "lqCN s2 = lqCN self" "S s2 = S self"
    "lcfs s2 = lcfs self" "ep s2 = ep self" "qBG s2 = qBG self"
  using assms by (auto simp: updateLaminarData_def Let_def bind_Inr_iff)



section \<open>The conductive model with the default settings\<close>

lemma select_map: "select m (map g xs) = map g (select m xs)"
proof (induction m arbitrary: xs)
  case Nil
  show ?case by (simp add: select_def)
next
  case (Cons b m)
  show ?case
  proof (cases xs)
    case Nil
    then show ?thesis by (simp add: select_def)
  next
    case (Cons x rest)
    with Cons.IH [of rest] show ?thesis by (simp add: select_def)
  qed
qed

lemma put_mask_select:
  "length m = length xs \<Longrightarrow> length xs = length ys \<Longrightarrow>
   put_mask m xs (select m ys) = map (\<lambda>(b, x, y). if b then y else x) (zip m (zip xs ys))"
  by (induction m xs ys rule: list_induct3) (simp_all add: select_def)

lemma conduct_shape_entries:
  "conduct_shape self k L r =
     (conduct_q k L (map (\<lambda>p. if p < 1.0 then fT self (1.0 + r * (1.0 - p)) else fT self p)
                      (linspace 0.85 1.2 1000)),
      linspace 0.85 1.2 1000)"
proof -
  let ?g = "linspace 0.85 1.2 1000"
  let ?m = "map (\<lambda>p. p < 1.0) ?g"
  have "put_mask ?m (map (fT self) ?g) (map (\<lambda>p. fT self (1.0 + r * (1.0 - p))) (select ?m ?g))
      = put_mask ?m (map (fT self) ?g) (select ?m (map (\<lambda>p. fT self (1.0 + r * (1.0 - p))) ?g))"
    by (simp only: select_map)
  also have "\<dots> = map (\<lambda>(b, x, y). if b then y else x)
      (zip ?m (zip (map (fT self) ?g) (map (\<lambda>p. fT self (1.0 + r * (1.0 - p))) ?g)))"
    by (rule put_mask_select) simp_all
  also have "\<dots> = map (\<lambda>p. if p < 1.0 then fT self (1.0 + r * (1.0 - p)) else fT self p) ?g"
    by (rule nth_equalityI) simp_all
  finally show ?thesis
    unfolding conduct_shape_def Let_def by (simp only:)
qed

lemma linspace_hd: "0 < n \<Longrightarrow> hd (linspace a b n) = a"
  by (simp add: linspace_def hd_map upt_conv_Cons)

lemma linspace_first: "0 < n \<Longrightarrow> a \<in> set (linspace a b n)"
proof -
  assume n: "0 < n"
  then have "linspace a b n \<noteq> []" by (simp add: linspace_def)
  then have "hd (linspace a b n) \<in> set (linspace a b n)" by (rule hd_in_set)
  with n show ?thesis by (simp add: linspace_hd)
qed

lemma conduct_q_nan: "t \<in> set T \<Longrightarrow> t < 0 \<Longrightarrow> NaN \<in> set (conduct_q k L T)"
proof -
  assume t: "t \<in> set T" "t < 0"
  have "Fin (2.0 / 7.0 * k) / L * (power35 t - Fin (0 powr 3.5)) * Fin (1000 powr 3.5)
               / Fin 1000000 = NaN"
    using t(2) by (simp add: power35_def)
  with t(1) show ?thesis
    unfolding conduct_q_def set_map by (metis (no_types, lifting) imageI)
qed

lemma conduct_shape_nan:
  assumes "fT self (1.0 + r * (1.0 - 0.85)) < 0"
  shows "NaN \<in> set (fst (conduct_shape self k L r))"
proof -
  have "(0.85::real) \<in> set (linspace 0.85 1.2 1000)" by (rule linspace_first) simp
  then have "(if (0.85::real) < 1.0 then fT self (1.0 + r * (1.0 - 0.85)) else fT self 0.85)
      \<in> set (map (\<lambda>p. if p < 1.0 then fT self (1.0 + r * (1.0 - p)) else fT self p)
                      (linspace 0.85 1.2 1000))"
    unfolding set_map by (rule imageI)
  then have "fT self (1.0 + r * (1.0 - 0.85))
      \<in> set (map (\<lambda>p. if p < 1.0 then fT self (1.0 + r * (1.0 - p)) else fT self p)
                      (linspace 0.85 1.2 1000))"
    by simp
  from conduct_q_nan [OF this assms] show ?thesis
    by (simp only: conduct_shape_entries fst_conv)
qed

lemma trapz_nan:
  "NaN \<in> set ys \<Longrightarrow> length xs = length ys \<Longrightarrow> 2 \<le> length ys \<Longrightarrow> trapz ys xs = NaN"
proof (induction ys xs rule: trapz.induct)
  case (1 y0 y1 ys x0 x1 xs)
  show ?case
  proof (cases "y0 = NaN \<or> y1 = NaN")
    case True
    then show ?thesis by auto
  next
    case False
    with 1(2) have n: "NaN \<in> set ys" by auto
    then have "ys \<noteq> []" by auto
    then have "2 \<le> length (y1 # ys)" by (cases ys) auto
    with 1 n have "trapz (y1 # ys) (x1 # xs) = NaN" by simp
    then show ?thesis by simp
  qed
qed auto

lemma power_balance_nan:
  assumes "simps sci q_hat (map (\<lambda>p. p * (psiSep e - psiAxis e) + psiAxis e) psiN) = NaN"
    and "length q_hat = length psiN"
  shows "power_balance sci e P' q_hat psiN = Inr NaN"
  using assms by (simp add: power_balance_def Let_def)

lemma pedestal_negative:
  assumes "1.2 < x" and "0 < Tped"
  shows "fst (Tprofile x Tped d) < 0"
proof -
  have "0 < pedestal_T0n Tped"
    unfolding pedestal_T0n_def using pedestal_denominator assms(2) by simp
  moreover have "pedestal_g x - pedestal_g 1.2 < 0"
    using pedestal_g_decreasing [OF assms(1)] by simp
  ultimately show ?thesis
    unfolding Tprofile_fst by (rule mult_pos_neg)
qed

lemma default_fields:
  "model default_self = Some ''conduct''" "lcfs default_self = 0.97" "S default_self = 2"
  "lqCN default_self = 5" "kappa default_self = 2000" "Psol default_self = 10"
  "qBG default_self = 0" "ep default_self = example_ep" "Lcmin default_self = 0.075"
  "P default_self = 10" "coreRadFrac default_self = 0"
  "fT default_self = (\<lambda>x. fst (Tprofile x 2 False))"
  by (simp_all add: default_self_def default_input_def setHFctl_defaults_def setHFctl_def
      example_self_def)


lemma default_update:
  "updateLaminarData default_self [0.9, 1.0, 10, 1.05] [0.05, 0.2, 0.01, 0.3] = Inr default_scenario"
  by (simp add: updateLaminarData_same_length default_scenario_def default_fields numeral_eq_Suc)

lemma default_scenario_fields:
  "model default_scenario = Some ''conduct''" "lcfs default_scenario = 0.97" "S default_scenario = 2"
  "lqCN default_scenario = 5" "kappa default_scenario = 2000" "Psol default_scenario = 10"
  "qBG default_scenario = 0" "ep default_scenario = example_ep"
  "fT default_scenario = (\<lambda>x. fst (Tprofile x 2 False))"
  "psimin default_scenario = [0.9, 1.0, 10, 1.05]" "Lc default_scenario = [0.05, 0.2, 0.01, 0.3]"
  "pfr default_scenario = [True, False, False, False]"
  "good default_scenario = [True, True, False, True]"
  "q default_scenario = [Fin 0, Fin 0, Fin 0, Fin 0]"
  by (simp_all add: default_scenario_def default_fields)

lemma model_names:
  "''conduct'' \<notin> set [''Layer'', ''layer'', ''eich'', ''Eich'', ''heuristic'']"
  "''conduct'' \<in> set [''conduct'', ''conductive'']"
  by simp_all

lemma default_scale:
  "scale_conduct example_scipy default_scenario P' k L (5 / 2) = Inr NaN"
proof -
  obtain qh psiN where sh: "conduct_shape default_scenario k L (5 / 2) = (qh, psiN)"
    by (cases "conduct_shape default_scenario k L (5 / 2)")
  have "fT default_scenario (1.0 + 5 / 2 * (1.0 - 0.85)) < 0"
    unfolding default_scenario_fields by (rule pedestal_negative) simp_all
  from conduct_shape_nan [OF this, of k L] have n: "NaN \<in> set qh" by (simp add: sh)
  have len: "length qh = 1000" "length psiN = 1000"
    using sh by (auto simp: conduct_shape_entries)
  have "trapz qh (map (\<lambda>p. p * (psiSep example_ep - psiAxis example_ep) + psiAxis example_ep) psiN) = NaN"
    by (rule trapz_nan [OF n]) (simp_all add: len)
  then have "power_balance example_scipy example_ep P' qh psiN = Inr NaN"
    by (intro power_balance_nan) (simp_all add: example_scipy_def len)
  then show ?thesis
    by (simp add: scale_conduct_def sh default_scenario_fields)
qed

lemma getq_conduct_masked:
  assumes "length m = length psi"
  shows "\<exists>T. length T = length psi \<and> getq_conduct self psi k L limit (Some m) r = Inr (conduct_q k L T)"
proof -
  let ?T1 = "if limit then map2 (\<lambda>p t. if p < lcfs self then fT self (lcfs self) else t) psi (map (fT self) psi)
      else map (fT self) psi"
  let ?T2 = "put_mask m ?T1 (map (\<lambda>p. fT self (1 + r * (1 - p))) (select m psi))"
  have "length ?T2 = length psi" by simp
  moreover have "getq_conduct self psi k L limit (Some m) r = Inr (conduct_q k L ?T2)"
    using assms by (simp add: getq_conduct_def Let_def bind_def)
  ultimately show ?thesis by blast
qed

lemma default_heatflux_model:
  "\<exists>qv. length qv = 4 \<and>
     heatflux_model example_scipy fs run default_scenario dc w = Inr (default_scenario, qv, NaN)"
proof -
  let ?L = "mean (select (map (\<lambda>x. x > lcfs default_scenario) (psimin default_scenario))
      (Lc default_scenario)) * Fin 1000"
  have len: "length (Lc default_scenario) = length (psimin default_scenario)"
    and s: "S default_scenario \<noteq> 0"
    by (simp_all add: default_scenario_fields)
  have "length (pfr default_scenario) = length (psimin default_scenario)"
    by (simp add: default_scenario_fields)
  from getq_conduct_masked [OF this]
  obtain T where lT': "length T = length (psimin default_scenario)"
    and g: "getq_conduct default_scenario (psimin default_scenario) (kappa default_scenario) ?L
      True (Some (pfr default_scenario)) (lqCN default_scenario / S default_scenario)
      = Inr (conduct_q (kappa default_scenario) ?L T)"
    by blast
  have lT: "length T = 4" using lT' by (simp add: default_scenario_fields)
  have sc: "scale_conduct example_scipy default_scenario (Psol default_scenario * w)
      (kappa default_scenario) ?L (lqCN default_scenario / S default_scenario) = Inr NaN"
    using default_scale [of "Psol default_scenario * w" "kappa default_scenario" ?L]
    by (simp add: default_scenario_fields(3,4))
  have "heatflux_model example_scipy fs run default_scenario dc w
      = Inr (default_scenario, conduct_q (kappa default_scenario) ?L T, NaN)"
    unfolding heatflux_model_def
    by (simp only: default_scenario_fields(1) option.case model_names if_True if_False Let_def len s g sc
        bind_def sum.case simp_thms)
  moreover have "length (conduct_q (kappa default_scenario) ?L T) = 4" using lT by simp
  ultimately show ?thesis by blast
qed

lemma default_heatflux:
  "heatflux example_scipy fs run default_scenario dc w = Inr default_flux"
proof -
  from default_heatflux_model [of fs run dc w] obtain qv where l: "length qv = 4"
    and hm: "heatflux_model example_scipy fs run default_scenario dc w = Inr (default_scenario, qv, NaN)"
    by blast
  have "map (\<lambda>v. v * NaN) qv = replicate (length qv) NaN"
    by (simp add: map_replicate_const)
  also have "\<dots> = [NaN, NaN, NaN, NaN]" by (simp add: l numeral_eq_Suc)
  finally have m: "map (\<lambda>v. v * NaN) qv = [NaN, NaN, NaN, NaN]" .
  show ?thesis
    unfolding heatflux_def hm bind_def sum.case prod.case Let_def m
    by (simp add: default_scenario_fields select_def default_flux_def)
qed

text \<open>
  In the conductive model \<^verbatim>\<open>heatflux\<close> returns on every trace result whose two arrays have
  the same length, whatever the profile, when \<open>S\<close> is not zero: a temperature that is
  negative, a mean of no connection length or an integral that is zero give \<^verbatim>\<open>nan\<close> or an
  infinity, not an exception.
\<close>

lemma isPFR_length: "isPFR self = Inr p \<Longrightarrow> length p = N self"
  by (auto simp: isPFR_def bind_Inr_iff Let_def split: if_splits)

lemma power_balance_returns:
  "length q_hat = length psiN \<Longrightarrow> \<exists>q0. power_balance sci e P' q_hat psiN = Inr q0"
  by (simp add: power_balance_def Let_def)

lemma scale_conduct_returns: "\<exists>q0. scale_conduct sci self P' k L r = Inr q0"
proof -
  have "length (fst (conduct_shape self k L r)) = length (snd (conduct_shape self k L r))"
    by (simp add: conduct_shape_entries)
  from power_balance_returns [OF this] show ?thesis
    by (simp add: scale_conduct_def case_prod_beta)
qed

lemma conduct_heatflux_returns:
  assumes upd: "updateLaminarData self ps lc = Inr self1"
    and len: "length lc = length ps"
    and m: "model self \<in> Some ` set [''conduct'', ''conductive'']"
    and s: "S self \<noteq> 0"
  shows "\<exists>self2. heatflux sci fs run self1 dc w = Inr self2"
proof -
  note f = updateLaminarData_fields [OF upd]
  note cfg = updateLaminarData_config [OF upd]
  let ?L = "mean (select (map (\<lambda>x. x > lcfs self1) (psimin self1)) (Lc self1)) * Fin 1000"
  from m obtain nm where nm: "model self1 = Some nm" "nm \<in> set [''conduct'', ''conductive'']"
    "nm \<notin> set [''Layer'', ''layer'', ''eich'', ''Eich'', ''heuristic'']"
    unfolding cfg by auto
  have "isPFR (self\<lparr>psimin := ps, Lc := lc, N := length ps, q := replicate (length ps) (Fin 0),
      good := map (\<lambda>x. x \<noteq> 10) ps\<rparr>) = Inr (pfr self1)"
    using f by simp
  from isPFR_length [OF this] have lp: "length (pfr self1) = length (psimin self1)"
    using f by simp
  from getq_conduct_masked [OF lp]
  obtain T where lT: "length T = length (psimin self1)"
    and g: "getq_conduct self1 (psimin self1) (kappa self1) ?L True (Some (pfr self1))
        (lqCN self1 / S self1) = Inr (conduct_q (kappa self1) ?L T)"
    by blast
  obtain q0 where sc: "scale_conduct sci self1 (Psol self1 * w) (kappa self1) ?L (lqCN self1 / S self1)
      = Inr q0"
    using scale_conduct_returns by blast
  have l1: "length (Lc self1) = length (psimin self1)" using f len by simp
  have s1: "S self1 \<noteq> 0" using s cfg by simp
  have hm: "heatflux_model sci fs run self1 dc w = Inr (self1, conduct_q (kappa self1) ?L T, q0)"
    unfolding heatflux_model_def
    by (simp only: nm option.case if_True if_False Let_def l1 s1 g sc bind_def sum.case simp_thms)
  have "length (good self1) = length (q self1)" "length (good self1) = length T"
    using f lT by simp_all
  then show ?thesis
    unfolding heatflux_def hm bind_def sum.case prod.case Let_def by simp
qed


section \<open>The conductive model on a constant temperature profile\<close>

lemma trapz_replicate:
  "length xs = n \<Longrightarrow> xs \<noteq> [] \<Longrightarrow> trapz (replicate n (Fin c)) xs = Fin (c * (last xs - hd xs))"
proof (induction xs arbitrary: n)
  case Nil
  then show ?case by simp
next
  case (Cons x xs)
  show ?case
  proof (cases xs)
    case Nil
    with Cons.prems show ?thesis by simp
  next
    case (Cons x1 rest)
    with Cons.prems obtain k where n: "n = Suc (Suc k)" "length rest = k" by auto
    have ih: "trapz (replicate (Suc k) (Fin c)) xs = Fin (c * (last xs - hd xs))"
      using Cons.IH [of "Suc k"] Cons n by simp
    have "trapz (replicate n (Fin c)) (x # xs)
        = Fin (x1 - x) * (Fin c + Fin c) / Fin 2 + trapz (replicate (Suc k) (Fin c)) xs"
      using Cons n by simp
    also have "\<dots> = Fin ((x1 - x) * c + c * (last xs - hd xs))"
      using ih by simp
    also have "(x1 - x) * c + c * (last xs - hd xs) = c * (last (x # xs) - hd (x # xs))"
      using Cons by (simp add: algebra_simps)
    finally show ?thesis .
  qed
qed

lemma interp_const:
  "length xs = length ys \<Longrightarrow> ys \<noteq> [] \<Longrightarrow> \<forall>y \<in> set ys. y = c \<Longrightarrow> interp xs ys t = c"
  by (induction xs ys t rule: interp.induct) auto

lemma linspace_last: "2 \<le> n \<Longrightarrow> last (linspace a b n) = b"
proof -
  assume n: "2 \<le> n"
  then have "[0..<n] \<noteq> []" by simp
  then have "last (linspace a b n) = a + real (n - 1) * ((b - a) / real (n - 1))"
    using n by (simp add: linspace_def last_map)
  also have "\<dots> = b" using n by simp
  finally show ?thesis .
qed

lemma linspace4: "linspace 0 1.1 4 = [0, 1.1 / 3, 2 * (1.1 / 3), 3 * (1.1 / 3)]"
  by (simp add: linspace_def upt_rec numeral_eq_Suc)

lemma linspace4_Suc:
  "linspace 0 1.1 (Suc (Suc (Suc (Suc 0)))) = [0, 1.1 / 3, 2 * (1.1 / 3), 3 * (1.1 / 3)]"
  using linspace4 by (simp add: numeral_eq_Suc)

lemma conduct_fT: "fT conduct_self = (\<lambda>x. 1)"
  by (rule ext) (simp add: conduct_self_def interp_const)

lemma conduct_initialize:
  "initializeHF3D example_scipy (\<lambda>f. None) example_self example_ep (Some conduct_input) ''.''
     = Inr conduct_self"
  by (simp add: initializeHF3D_def resolve_profile_def conduct_input_def example_self_def
      setHFctl_defaults_def setHFctl_def example_scipy_def linear_spline_def linspace4 linspace4_Suc
      conduct_self_def bind_def Let_def)

lemma const_list: "\<forall>x \<in> set zs. x = t \<Longrightarrow> zs = replicate (length zs) t"
  by (simp add: replicate_length_same)

lemma put_mask_const:
  assumes "\<forall>x \<in> set xs. x = t" and "\<forall>v \<in> set vs. v = t"
  shows "put_mask m xs vs = replicate (length xs) t"
proof -
  have "\<forall>x \<in> set (put_mask m xs vs). x = t"
    using put_mask_set [of m xs vs] assms by auto
  from const_list [OF this] show ?thesis by simp
qed

lemma conduct_q_const:
  assumes "0 \<le> t" and "Lr \<noteq> 0"
  shows "conduct_q k (Fin Lr) (replicate n t) =
    replicate n (Fin (2.0 / 7.0 * k / Lr * (t powr 3.5 - 0 powr 3.5) * (1000 powr 3.5) / 1000000))"
  using assms by (simp add: conduct_q_def power35_def)

lemma getq_conduct_const:
  assumes "fT self = (\<lambda>x. t)" and "0 \<le> t" and "Lr \<noteq> 0" and "length m = length psi"
  shows "getq_conduct self psi k (Fin Lr) True (Some m) r =
    Inr (replicate (length psi) (Fin (2.0 / 7.0 * k / Lr * (t powr 3.5 - 0 powr 3.5) * (1000 powr 3.5) / 1000000)))"
proof -
  have T1: "map2 (\<lambda>p t'. if p < lcfs self then fT self (lcfs self) else t') psi (map (fT self) psi)
      = replicate (length psi) t"
    by (rule nth_equalityI) (simp_all add: assms(1))
  have a: "\<forall>x \<in> set (replicate (length psi) t). x = t" by simp
  have b: "\<forall>v \<in> set (map (\<lambda>p. fT self (1 + r * (1 - p))) (select m psi)). v = t"
    unfolding assms(1) by simp
  have T2: "put_mask m (replicate (length psi) t) (map (\<lambda>p. fT self (1 + r * (1 - p))) (select m psi))
      = replicate (length psi) t"
    using put_mask_const [OF a b, of m] by simp
  have "getq_conduct self psi k (Fin Lr) True (Some m) r = Inr (conduct_q k (Fin Lr) (replicate (length psi) t))"
    unfolding getq_conduct_def Let_def bind_def if_True T1 using assms(4) by (simp add: T2)
  then show ?thesis
    using assms(2,3) by (simp add: conduct_q_const)
qed

lemma conduct_shape_const:
  assumes "fT self = (\<lambda>x. t)" and "0 \<le> t" and "Lr \<noteq> 0"
  shows "conduct_shape self k (Fin Lr) r =
    (replicate 1000 (Fin (2.0 / 7.0 * k / Lr * (t powr 3.5 - 0 powr 3.5) * (1000 powr 3.5) / 1000000)),
     linspace 0.85 1.2 1000)"
proof -
  have "map (\<lambda>p. if p < 1.0 then fT self (1.0 + r * (1.0 - p)) else fT self p) (linspace 0.85 1.2 1000)
      = replicate 1000 t"
    by (rule nth_equalityI) (simp_all add: assms(1))
  then show ?thesis
    unfolding conduct_shape_entries by (simp only: conduct_q_const [OF assms(2,3)])
qed

lemma grid_width: "(1.2::real) * d + a - (0.85 * d + a) = 0.35 * d"
  by simp

lemma power_balance_trapz:
  assumes "simps sci = trapz" and "c * (psiSep e - psiAxis e) \<noteq> 0"
  shows "power_balance sci e P' (replicate 1000 (Fin c)) (linspace 0.85 1.2 1000) =
    Inr (Fin (P' / \<bar>2 * pi * (c * (0.35 * (psiSep e - psiAxis e)))\<bar>))"
proof -
  let ?psi = "map (\<lambda>p. p * (psiSep e - psiAxis e) + psiAxis e) (linspace 0.85 1.2 1000)"
  have ne: "linspace 0.85 1.2 1000 \<noteq> []"
  proof
    assume "linspace 0.85 1.2 1000 = []"
    then have "length (linspace 0.85 1.2 1000) = 0" by simp
    then show False by simp
  qed
  have l: "last ?psi = 1.2 * (psiSep e - psiAxis e) + psiAxis e"
    using ne by (simp add: last_map linspace_last)
  have h: "hd ?psi = 0.85 * (psiSep e - psiAxis e) + psiAxis e"
    using ne by (simp add: hd_map linspace_hd)
  have "trapz (replicate 1000 (Fin c)) ?psi = Fin (c * (last ?psi - hd ?psi))"
    by (rule trapz_replicate) (use ne in simp_all)
  then have "trapz (replicate 1000 (Fin c)) ?psi
      = Fin (c * ((1.2 * (psiSep e - psiAxis e) + psiAxis e) - (0.85 * (psiSep e - psiAxis e) + psiAxis e)))"
    by (simp only: l h)
  also have "(1.2 * (psiSep e - psiAxis e) + psiAxis e) - (0.85 * (psiSep e - psiAxis e) + psiAxis e)
      = 0.35 * (psiSep e - psiAxis e)"
    by (rule grid_width)
  finally have t: "trapz (replicate 1000 (Fin c)) ?psi = Fin (c * (0.35 * (psiSep e - psiAxis e)))" .
  have nz: "2 * pi * (c * (0.35 * (psiSep e - psiAxis e))) \<noteq> 0"
    using assms(2) by simp
  show ?thesis
    unfolding power_balance_def Let_def assms(1) t
    using nz by (simp add: abs_if)
qed

section \<open>The examples of heatflux\<close>

lemma conduct_fields:
  "model conduct_self = Some ''conduct''" "lcfs conduct_self = 0.97" "S conduct_self = 2"
  "lqCN conduct_self = 5" "kappa conduct_self = 2000" "Psol conduct_self = 10"
  "qBG conduct_self = 0.5" "ep conduct_self = example_ep" "Lcmin conduct_self = 0.075"
  "P conduct_self = 10" "coreRadFrac conduct_self = 0"
  by (simp_all add: conduct_self_def conduct_input_def setHFctl_defaults_def setHFctl_def
      example_self_def)

lemma conduct_heatflux_model:
  assumes s1: "s1 = conduct_self\<lparr>psimin := ps, Lc := lc, N := length ps,
        q := replicate (length ps) (Fin 0), good := g, pfr := pf\<rparr>"
    and lens: "length lc = length ps" "length pf = length ps"
    and L: "Fin Lr = mean (select (map (\<lambda>x. 0.97 < x) ps) lc) * Fin 1000" "Lr \<noteq> 0"
    and c: "c = 2.0 / 7.0 * 2000 / Lr * (1 powr 3.5 - 0 powr 3.5) * (1000 powr 3.5) / 1000000"
  shows "heatflux_model example_scipy fs run s1 dc w =
     Inr (s1, replicate (length ps) (Fin c), Fin (10 * w / \<bar>2 * pi * (c * (0.35 * (1 - 0)))\<bar>))"
proof -
  have f: "model s1 = Some ''conduct''" "lcfs s1 = 0.97" "S s1 = 2" "lqCN s1 = 5" "kappa s1 = 2000"
    "Psol s1 = 10" "ep s1 = example_ep" "psimin s1 = ps" "Lc s1 = lc" "pfr s1 = pf"
    "fT s1 = (\<lambda>x. 1)"
    unfolding s1 by (simp_all add: conduct_fields conduct_fT)
  have K: "(0::real) < 1000 powr 3.5" by simp
  have c0: "c \<noteq> 0" unfolding c using L(2) K by simp
  have g: "getq_conduct s1 ps 2000 (Fin Lr) True (Some pf) (5 / 2) = Inr (replicate (length ps) (Fin c))"
    unfolding c by (rule getq_conduct_const) (use f L lens in simp_all)
  have sh: "conduct_shape s1 2000 (Fin Lr) (5 / 2) = (replicate 1000 (Fin c), linspace 0.85 1.2 1000)"
    unfolding c by (rule conduct_shape_const) (use f L in simp_all)
  have pb: "power_balance example_scipy example_ep (10 * w) (replicate 1000 (Fin c)) (linspace 0.85 1.2 1000)
      = Inr (Fin (10 * w / \<bar>2 * pi * (c * (0.35 * (psiSep example_ep - psiAxis example_ep)))\<bar>))"
    by (rule power_balance_trapz) (use c0 in \<open>simp_all add: example_scipy_def example_ep_def\<close>)
  have ep: "psiSep example_ep - psiAxis example_ep = 1 - 0" by (simp add: example_ep_def)
  have sc: "scale_conduct example_scipy s1 (10 * w) 2000 (Fin Lr) (5 / 2)
      = Inr (Fin (10 * w / \<bar>2 * pi * (c * (0.35 * (1 - 0)))\<bar>))"
    unfolding scale_conduct_def sh f(7) prod.case using pb unfolding ep .
  have len1: "length (Lc s1) = length (psimin s1)" unfolding f by (rule lens)
  have L1: "mean (select (map (\<lambda>x. x > lcfs s1) (psimin s1)) (Lc s1)) * Fin 1000 = Fin Lr"
    unfolding f L(1) ..
  have S1: "S s1 \<noteq> 0" by (simp add: f)
  have g1: "getq_conduct s1 (psimin s1) (kappa s1) (Fin Lr) True (Some (pfr s1)) (lqCN s1 / S s1)
      = Inr (replicate (length ps) (Fin c))"
    using g by (simp add: f)
  have sc1: "scale_conduct example_scipy s1 (Psol s1 * w) (kappa s1) (Fin Lr) (lqCN s1 / S s1)
      = Inr (Fin (10 * w / \<bar>2 * pi * (c * (0.35 * (1 - 0)))\<bar>))"
    using sc by (simp add: f)
  show ?thesis
    unfolding heatflux_model_def
    by (simp only: f(1) option.case model_names if_True if_False Let_def len1 L1 S1 g1 sc1
        bind_def sum.case simp_thms)
qed

lemma conduct_heatflux:
  assumes s1: "s1 = conduct_self\<lparr>psimin := ps, Lc := lc, N := length ps,
        q := replicate (length ps) (Fin 0), good := g, pfr := pf\<rparr>"
    and lens: "length lc = length ps" "length pf = length ps" "length g = length ps"
    and L: "Fin Lr = mean (select (map (\<lambda>x. 0.97 < x) ps) lc) * Fin 1000" "Lr \<noteq> 0"
    and c: "c = 2.0 / 7.0 * 2000 / Lr * (1 powr 3.5 - 0 powr 3.5) * (1000 powr 3.5) / 1000000"
    and v: "v = c * (10 * w / \<bar>2 * pi * (c * (0.35 * (1 - 0)))\<bar>)"
  shows "heatflux example_scipy fs run s1 dc w =
     Inr (s1\<lparr>q := map (\<lambda>b. Fin ((if b then v else 0) + 0.5)) g\<rparr>)"
proof -
  define q0 where "q0 = 10 * w / \<bar>2 * pi * (c * (0.35 * (1 - 0)))\<bar>"
  have hm: "heatflux_model example_scipy fs run s1 dc w = Inr (s1, replicate (length ps) (Fin c), Fin q0)"
    unfolding q0_def by (rule conduct_heatflux_model [OF s1 lens(1,2) L c])
  have f: "good s1 = g" "q s1 = replicate (length ps) (Fin 0)" "qBG s1 = 0.5"
    unfolding s1 by (simp_all add: conduct_fields)
  have "put_mask g (replicate (length ps) (Fin 0))
        (select g (map (\<lambda>v. v * Fin q0) (replicate (length ps) (Fin c))))
     = map (\<lambda>(b, x, y). if b then y else x)
         (zip g (zip (replicate (length ps) (Fin 0)) (map (\<lambda>v. v * Fin q0) (replicate (length ps) (Fin c)))))"
    by (rule put_mask_select) (use lens in simp_all)
  also have "\<dots> = map (\<lambda>b. Fin (if b then v else 0)) g"
    by (rule nth_equalityI) (use lens in \<open>simp_all add: v q0_def\<close>)
  finally have pm: "put_mask g (replicate (length ps) (Fin 0))
      (select g (map (\<lambda>v. v * Fin q0) (replicate (length ps) (Fin c)))) = map (\<lambda>b. Fin (if b then v else 0)) g" .
  show ?thesis
    unfolding heatflux_def hm bind_def sum.case prod.case Let_def f pm
    using lens by (simp add: comp_def)
qed

lemma scale_pos:
  assumes "0 < c"
  shows "c * (p / \<bar>2 * pi * (c * (0.35 * (1 - 0)))\<bar>) = p / (0.7 * pi)"
proof -
  have "\<bar>2 * pi * (c * (0.35 * (1 - 0)))\<bar> = c * (0.7 * pi)"
    using assms by (simp add: abs_mult)
  then show ?thesis using assms by simp
qed

lemma scenario_update:
  "updateLaminarData conduct_self [0.9, 1.0, 10, 1.05] [0.05, 0.2, 0.01, 0.3] = Inr scenario_self"
  by (simp add: updateLaminarData_same_length scenario_self_def conduct_fields numeral_eq_Suc)

lemma scenario_mean:
  "Fin 170 = mean (select (map (\<lambda>x. 0.97 < x) [0.9, 1.0, 10, 1.05::real]) [0.05, 0.2, 0.01, 0.3]) * Fin 1000"
  by (simp add: select_def mean_def)

lemma scenario_heatflux:
  "heatflux example_scipy (\<lambda>f. None) no_tracer scenario_self ''O'' 1 = Inr scenario_flux"
proof -
  define c :: real where "c = 2.0 / 7.0 * 2000 / 170 * (1 powr 3.5 - 0 powr 3.5) * (1000 powr 3.5) / 1000000"
  have K: "(0::real) < 1000 powr 3.5" by simp
  have cpos: "0 < c" unfolding c_def using K by simp
  have "heatflux example_scipy (\<lambda>f. None) no_tracer scenario_self ''O'' 1 =
     Inr (scenario_self\<lparr>q := map (\<lambda>b. Fin ((if b then 10 / (0.7 * pi) else 0) + 0.5)) [True, True, False, True]\<rparr>)"
  proof (rule conduct_heatflux [where c = c and Lr = 170])
    show "scenario_self = conduct_self\<lparr>psimin := [0.9, 1.0, 10, 1.05], Lc := [0.05, 0.2, 0.01, 0.3],
        N := length [0.9, 1.0, 10, 1.05::real], q := replicate (length [0.9, 1.0, 10, 1.05::real]) (Fin 0),
        good := [True, True, False, True], pfr := [True, False, False, False]\<rparr>"
      by (simp add: scenario_self_def numeral_eq_Suc)
    show "Fin 170 = mean (select (map (\<lambda>x. 0.97 < x) [0.9, 1.0, 10, 1.05::real]) [0.05, 0.2, 0.01, 0.3]) * Fin 1000"
      by (rule scenario_mean)
    show "c = 2.0 / 7.0 * 2000 / 170 * (1 powr 3.5 - 0 powr 3.5) * (1000 powr 3.5) / 1000000"
      by (rule c_def)
    show "10 / (0.7 * pi) = c * (10 * 1 / \<bar>2 * pi * (c * (0.35 * (1 - 0)))\<bar>)"
      using scale_pos [OF cpos, of 10] by simp
  qed simp_all
  then show ?thesis by (simp add: scenario_flux_def)
qed




section \<open>The scale factor of the power balance\<close>

lemma initializeHF3D_Psol:
  assumes "initializeHF3D sci fs self e loaded dir = Inr s1"
  shows "Psol s1 = (1 - coreRadFrac s1) * P s1"
  using assms by (auto simp: initializeHF3D_def Let_def bind_Inr_iff)

lemma scaled_negative: "Fin (2 * pi) * x < Fin 0 \<longleftrightarrow> x < Fin 0"
  by (cases x) (simp_all add: mult_less_0_iff)

text \<open>
  Claim C2. After \<^verbatim>\<open>initializeHF3D\<close> and \<^verbatim>\<open>updateLaminarData\<close>, in both models, the scale
  \<open>q0\<close> that \<^verbatim>\<open>heatflux\<close> obtains from \<^verbatim>\<open>scale_layer\<close> or \<^verbatim>\<open>scale_conduct\<close> is the target power
  \<open>P * (1 - coreRadFrac) * powerFrac\<close> divided by \<open>I\<close> or, exactly when the integral is
  negative, by \<open>- I\<close>, where \<open>I\<close> is \<open>2 * pi\<close> times the integral \<^verbatim>\<open>simps\<close> of the unscaled
  profile \<open>q_hat\<close> of the model over the flux \<open>psiN * (psiSep - psiAxis) + psiAxis\<close>. The
  quotient is NumPy's: the scale is \<^verbatim>\<open>nan\<close> when the integral is.
\<close>

theorem power_balance_scale:
  assumes init: "initializeHF3D sci fs0 self0 ep' loaded dir = Inr s1"
    and upd: "updateLaminarData s1 ps lc = Inr s2"
    and hm: "heatflux_model sci fs run s2 dc w = Inr (s3, qv, q0)"
  shows "\<exists>q_hat psiN I.
      ((model s2 \<in> Some ` set [''Layer'', ''layer'', ''eich'', ''Eich'', ''heuristic'']
            \<and> layer_shape sci fs run s3 (lqCN s2) (S s2) (Some 1.0) = Inr (q_hat, psiN))
       \<or> (model s2 \<in> Some ` set [''conduct'', ''conductive'']
            \<and> conduct_shape s2 (kappa s2)
                 (mean (select (map (\<lambda>x. x > lcfs s2) (psimin s2)) (Lc s2)) * Fin 1000)
                 (lqCN s2 / S s2) = (q_hat, psiN)))
      \<and> I = simps sci q_hat
               (map (\<lambda>p. p * (psiSep (ep s2) - psiAxis (ep s2)) + psiAxis (ep s2)) psiN)
      \<and> q0 = Fin (P s1 * (1 - coreRadFrac s1) * w)
               / (if I < Fin 0 then - (Fin (2 * pi) * I) else Fin (2 * pi) * I)"
proof -
  have target: "Psol s2 * w = P s1 * (1 - coreRadFrac s1) * w"
    using initializeHF3D_Psol [OF init] updateLaminarData_config(1) [OF upd] by simp
  from hm show ?thesis
  proof (cases rule: heatflux_model_cases)
    case (layer side)
    from layer(4) obtain sh where sh: "layer_shape sci fs run s3 (lqCN s2) (S s2) (Some 1.0) = Inr sh"
      and pb0: "(case sh of (q_hat, psiN) \<Rightarrow>
        power_balance sci (ep s3) (Psol s2 * w) q_hat psiN) = Inr q0"
      unfolding scale_layer_def by (elim bindE)
    obtain qh psiN where p: "sh = (qh, psiN)" by (cases sh)
    have "ep s3 = ep s2" unfolding layer(2) by simp
    with pb0 p have pb: "power_balance sci (ep s2) (Psol s2 * w) qh psiN = Inr q0" by simp
    from power_balance_value(1) [OF pb]
    have "q0 = Fin (P s1 * (1 - coreRadFrac s1) * w)
        / (if simps sci qh (map (\<lambda>p. p * (psiSep (ep s2) - psiAxis (ep s2)) + psiAxis (ep s2)) psiN) < Fin 0
           then - (Fin (2 * pi) * simps sci qh (map (\<lambda>p. p * (psiSep (ep s2) - psiAxis (ep s2)) + psiAxis (ep s2)) psiN))
           else Fin (2 * pi) * simps sci qh (map (\<lambda>p. p * (psiSep (ep s2) - psiAxis (ep s2)) + psiAxis (ep s2)) psiN))"
      unfolding target scaled_negative .
    with layer(1) sh p show ?thesis by blast
  next
    case conduct
    obtain qh psiN where sh: "conduct_shape s2 (kappa s2)
        (mean (select (map (\<lambda>x. x > lcfs s2) (psimin s2)) (Lc s2)) * Fin 1000) (lqCN s2 / S s2) = (qh, psiN)"
      by (cases "conduct_shape s2 (kappa s2)
        (mean (select (map (\<lambda>x. x > lcfs s2) (psimin s2)) (Lc s2)) * Fin 1000) (lqCN s2 / S s2)")
    with conduct(6) have pb: "power_balance sci (ep s2) (Psol s2 * w) qh psiN = Inr q0"
      unfolding scale_conduct_def by simp
    from power_balance_value(1) [OF pb]
    have "q0 = Fin (P s1 * (1 - coreRadFrac s1) * w)
        / (if simps sci qh (map (\<lambda>p. p * (psiSep (ep s2) - psiAxis (ep s2)) + psiAxis (ep s2)) psiN) < Fin 0
           then - (Fin (2 * pi) * simps sci qh (map (\<lambda>p. p * (psiSep (ep s2) - psiAxis (ep s2)) + psiAxis (ep s2)) psiN))
           else Fin (2 * pi) * simps sci qh (map (\<lambda>p. p * (psiSep (ep s2) - psiAxis (ep s2)) + psiAxis (ep s2)) psiN))"
      unfolding target scaled_negative .
    with conduct(1) sh show ?thesis by blast
  qed
qed

lemma scenario_fields:
  "model scenario_self = Some ''conduct''" "kappa scenario_self = 2000" "lcfs scenario_self = 0.97"
  "lqCN scenario_self = 5" "S scenario_self = 2" "fT scenario_self = (\<lambda>x. 1)"
  "psimin scenario_self = [0.9, 1.0, 10, 1.05]" "Lc scenario_self = [0.05, 0.2, 0.01, 0.3]"
  "ep scenario_self = example_ep"
  by (simp_all add: scenario_self_def conduct_fields conduct_fT)

lemma scenario_length:
  "mean (select (map (\<lambda>x. x > lcfs scenario_self) (psimin scenario_self)) (Lc scenario_self)) * Fin 1000
     = Fin 170"
  by (simp add: scenario_fields select_def mean_def)

lemma scenario_model:
  "heatflux_model example_scipy (\<lambda>f. None) no_tracer scenario_self ''O'' 1 =
     Inr (scenario_self, replicate 4 (Fin scenario_shape),
          Fin (10 * 1 / \<bar>2 * pi * (scenario_shape * (0.35 * (1 - 0)))\<bar>))"
proof -
  have "heatflux_model example_scipy (\<lambda>f. None) no_tracer scenario_self ''O'' 1 =
     Inr (scenario_self, replicate (length [0.9, 1.0, 10, 1.05::real]) (Fin scenario_shape),
          Fin (10 * 1 / \<bar>2 * pi * (scenario_shape * (0.35 * (1 - 0)))\<bar>))"
  proof (rule conduct_heatflux_model [where Lr = 170])
    show "scenario_self = conduct_self\<lparr>psimin := [0.9, 1.0, 10, 1.05], Lc := [0.05, 0.2, 0.01, 0.3],
        N := length [0.9, 1.0, 10, 1.05::real], q := replicate (length [0.9, 1.0, 10, 1.05::real]) (Fin 0),
        good := [True, True, False, True], pfr := [True, False, False, False]\<rparr>"
      by (simp add: scenario_self_def numeral_eq_Suc)
    show "Fin 170 = mean (select (map (\<lambda>x. 0.97 < x) [0.9, 1.0, 10, 1.05::real]) [0.05, 0.2, 0.01, 0.3]) * Fin 1000"
      by (rule scenario_mean)
    show "scenario_shape = 2.0 / 7.0 * 2000 / 170 * (1 powr 3.5 - 0 powr 3.5) * (1000 powr 3.5) / 1000000"
      by (rule scenario_shape_def)
  qed simp_all
  moreover have "length [0.9, 1.0, 10, 1.05::real] = 4" by simp
  ultimately show ?thesis by (simp only:)
qed

lemma scenario_conduct_shape:
  "conduct_shape scenario_self (kappa scenario_self)
     (mean (select (map (\<lambda>x. x > lcfs scenario_self) (psimin scenario_self)) (Lc scenario_self)) * Fin 1000)
     (lqCN scenario_self / S scenario_self)
   = (replicate 1000 (Fin scenario_shape), linspace 0.85 1.2 1000)"
  unfolding scenario_length scenario_fields(2) scenario_shape_def
  by (rule conduct_shape_const) (simp_all add: scenario_fields)


section \<open>The layer model on a flat profile\<close>

lemma interp_flat:
  "sorted_wrt (<) xs \<Longrightarrow> length xs = length ys \<Longrightarrow> xs \<noteq> [] \<Longrightarrow> last xs \<le> t
     \<Longrightarrow> interp xs ys t = last ys"
proof (induction xs ys t rule: interp.induct)
  case (1 x0 x1 xs y0 y1 ys t)
  have lt: "x0 < x1" using 1(2) by simp
  show ?case
  proof (cases "xs = []")
    case True
    with 1 lt show ?thesis by (cases "t = x1") auto
  next
    case False
    then have "x1 < last xs" using 1(2) by (auto simp: last_in_set)
    with 1(5) lt False have n: "\<not> t \<le> x0" "\<not> t \<le> x1" by simp_all
    have "interp (x1 # xs) (y1 # ys) t = last (y1 # ys)"
      using 1(1) [OF n] 1(2,3,5) False by simp
    with n 1(3) False show ?thesis by auto
  qed
qed auto

lemma linspace_sorted:
  assumes "a < b"
  shows "sorted_wrt (<) (linspace a b n)"
proof -
  have "sorted_wrt (\<lambda>i j. a + real i * ((b - a) / real (n - 1)) < a + real j * ((b - a) / real (n - 1))) [0..<n]"
  proof (rule sorted_wrt_mono_rel [where P = "(<)"])
    fix i j assume "i \<in> set [0..<n]" "j \<in> set [0..<n]" "i < j"
    then have "1 < n" by auto
    then have "0 < (b - a) / real (n - 1)" using assms by simp
    moreover have "real i < real j" using \<open>i < j\<close> by simp
    ultimately have "real i * ((b - a) / real (n - 1)) < real j * ((b - a) / real (n - 1))"
      by (rule mult_strict_right_mono [rotated])
    then show "a + real i * ((b - a) / real (n - 1)) < a + real j * ((b - a) / real (n - 1))"
      by simp
  qed simp
  then show ?thesis by (simp add: linspace_def sorted_wrt_map)
qed

lemma linspace_ge:
  assumes "a \<le> b" and "x \<in> set (linspace a b n)"
  shows "a \<le> x"
proof -
  from assms(2) [unfolded linspace_def set_map]
  obtain i where "x = a + real i * ((b - a) / real (n - 1))"
    by blast
  moreover have "0 \<le> real i * ((b - a) / real (n - 1))" using assms(1) by simp
  ultimately show ?thesis by simp
qed


lemma flat_knots:
  "sorted_wrt (<) (map (\<lambda>r. psiFunc_ev flat_ep r (ZmAxis flat_ep)) (linspace 1 2.5 100))"
proof -
  have "sorted_wrt (\<lambda>r r'. psiFunc_ev flat_ep r (ZmAxis flat_ep) < psiFunc_ev flat_ep r' (ZmAxis flat_ep))
      (linspace 1 2.5 100)"
  proof (rule sorted_wrt_mono_rel [where P = "(<)"])
    fix r r' :: real
    assume "r \<in> set (linspace 1 2.5 100)" "r' \<in> set (linspace 1 2.5 100)" "r < r'"
    moreover from this have "1 \<le> r" by (rule_tac linspace_ge [where b = "2.5" and n = 100]) simp_all
    ultimately have "0 \<le> r - 1" "r - 1 < r' - 1" by simp_all
    then have "(r - 1)\<^sup>2 < (r' - 1)\<^sup>2"
      using power_strict_mono [of "r - 1" "r' - 1" 2] by simp
    then show "psiFunc_ev flat_ep r (ZmAxis flat_ep) < psiFunc_ev flat_ep r' (ZmAxis flat_ep)"
      by (simp add: flat_ep_def)
  qed (simp add: linspace_sorted)
  then show ?thesis by (simp add: sorted_wrt_map)
qed

lemma flat_last_knot:
  "last (map (\<lambda>r. psiFunc_ev flat_ep r (ZmAxis flat_ep)) (linspace 1 2.5 100)) = 0.225"
proof -
  have ne: "linspace 1 2.5 100 \<noteq> []"
  proof
    assume "linspace 1 2.5 100 = []"
    then have "length (linspace 1 2.5 100) = 0" by simp
    then show False by simp
  qed
  then show ?thesis
    by (simp add: last_map linspace_last flat_ep_def power2_eq_square)
qed

lemma flat_map_R_psi:
  assumes "ep self = flat_ep" and "\<not> truthy (HFS self)" and "\<forall>p \<in> set psi. 0.225 \<le> p"
  shows "map_R_psi example_scipy self psi = Inr (replicate (length psi) 2.5)"
proof -
  let ?R = "linspace 1 2.5 100"
  let ?p = "map (\<lambda>r. psiFunc_ev flat_ep r (ZmAxis flat_ep)) ?R"
  have ne: "?R \<noteq> []"
  proof
    assume "?R = []"
    then have "length ?R = 0" by simp
    then show False by simp
  qed
  have sp: "linear_spline ?p ?R = Inr (interp ?p ?R)"
    using flat_knots by (simp add: linear_spline_def)
  have v: "interp ?p ?R t = 2.5" if "0.225 \<le> t" for t
  proof -
    have "interp ?p ?R t = last ?R"
    proof (rule interp_flat)
      show "sorted_wrt (<) ?p" by (rule flat_knots)
      show "length ?p = length ?R" by simp
      show "?p \<noteq> []" using ne by simp
      show "last ?p \<le> t" unfolding flat_last_knot using that .
    qed
    then show ?thesis using ne by (simp add: linspace_last)
  qed
  have m: "map (interp ?p ?R) psi = replicate (length psi) 2.5"
    by (rule nth_equalityI) (use assms(3) v in simp_all)
  have ax: "RmAxis flat_ep = 1" and w: "R1 flat_ep + Xdim flat_ep = 2.5"
    by (simp_all add: flat_ep_def)
  have u: "UnivariateSpline example_scipy = linear_spline"
    by (simp add: example_scipy_def)
  show ?thesis
    unfolding map_R_psi_def Let_def assms(1) ax w u
    by (simp only: assms(2) if_False sp bind_def sum.case m)
qed



lemma flat_map_R_psi1:
  assumes "ep self = flat_ep" and "\<not> truthy (HFS self)" and "0.225 \<le> p"
  shows "map_R_psi1 example_scipy self p = Inr 2.5"
  using flat_map_R_psi [OF assms(1,2), of "[p]"] assms(3)
  by (simp add: map_R_psi1_def bind_def)

lemma flat_peak_pos: "0 < flat_peak lq Sw"
  using tanh_real_lt_1 [of "0.5 * Sw / lq"] by (simp add: flat_peak_def erfc_like_def)

lemma eich_flat:
  assumes "lq \<noteq> 0" and "Sw \<noteq> 0" and "s0 = v"
  shows "eich_profile (erfc example_scipy) (replicate k v) lq Sw s0 1 0 1
     = Inr (replicate k (Fin (flat_peak lq Sw)))"
  using assms by (simp add: eich_profile_def Let_def flat_peak_def example_scipy_def)

lemma amax_replicate: "0 < k \<Longrightarrow> amax (replicate k x) = x"
  using amax_mem [of "replicate k x"] by simp

lemma argmax_replicate:
  assumes "0 < k"
  shows "argmax (replicate k x) = 0"
proof -
  obtain j where k: "k = Suc j" using assms by (cases k) simp_all
  show ?thesis unfolding argmax_def amax_replicate [OF assms] by (simp add: k)
qed

lemma flat_set_layer:
  assumes e: "ep self = flat_ep" and h: "\<not> truthy (HFS self)"
    and psi: "\<forall>p \<in> set psi. 0.225 \<le> p" "psi \<noteq> []"
    and l: "0.275 \<le> lcfs'" and w: "lq \<noteq> 0" "Sw \<noteq> 0"
  shows "set_layer example_scipy self psi lq Sw lcfs' (Fin c) lobes
     = Inr (replicate (length psi) (Fin c), Fin c)"
proof -
  let ?n = "length psi"
  let ?e = "Fin (flat_peak lq Sw)"
  have x: "map_R_psi example_scipy self psi = Inr (replicate ?n 2.5)"
    by (rule flat_map_R_psi [OF e h psi(1)])
  have xsep: "map_R_psi1 example_scipy self 1.0 = Inr 2.5"
    by (rule flat_map_R_psi1 [OF e h]) simp
  have s0: "map_R_psi1 example_scipy self lcfs' = Inr 2.5"
    by (rule flat_map_R_psi1 [OF e h]) (use l in simp)
  have g1: "map_R_psi example_scipy self (linspace (lcfs' - 0.05) (lcfs' + 0.1) 10000)
      = Inr (replicate 10000 2.5)"
  proof -
    have "\<forall>p \<in> set (linspace (lcfs' - 0.05) (lcfs' + 0.1) 10000). 0.225 \<le> p"
    proof
      fix p assume "p \<in> set (linspace (lcfs' - 0.05) (lcfs' + 0.1) 10000)"
      then have "lcfs' - 0.05 \<le> p" by (rule_tac linspace_ge) simp_all
      with l show "0.225 \<le> p" by simp
    qed
    from flat_map_R_psi [OF e h this] show ?thesis by simp
  qed
  have g2: "map_R_psi example_scipy self (linspace 0.95 1.1 10000) = Inr (replicate 10000 2.5)"
  proof -
    have "\<forall>p \<in> set (linspace 0.95 1.1 10000). 0.225 \<le> p"
    proof
      fix p :: real assume "p \<in> set (linspace 0.95 1.1 10000)"
      then have "0.95 \<le> p" by (rule_tac linspace_ge) simp_all
      then show "0.225 \<le> p" by simp
    qed
    from flat_map_R_psi [OF e h this] show ?thesis by simp
  qed
  have ref: "eich_profile (erfc example_scipy) (replicate 10000 2.5) lq Sw 2.5 1 0 1
      = Inr (replicate 10000 ?e)"
    by (rule eich_flat [OF w]) simp
  have am: "argmax (replicate 10000 ?e) = 0"
    by (rule argmax_replicate) simp
  have x0: "(2.5::real) - (replicate 10000 2.5 ! 0 - 2.5) = 2.5" by simp
  have qm: "replicate 10000 ?e ! 0 = ?e" by simp
  have qv: "eich_profile (erfc example_scipy) (replicate ?n 2.5) lq Sw 2.5 1 0 1
      = Inr (replicate ?n ?e)"
    by (rule eich_flat [OF w]) simp
  have qs: "eich_profile (erfc example_scipy) [2.5] lq Sw 2.5 1 0 1 = Inr [?e]"
  proof -
    have "eich_profile (erfc example_scipy) (replicate 1 2.5) lq Sw 2.5 1 0 1
        = Inr (replicate 1 ?e)"
      by (rule eich_flat [OF w]) simp
    then show ?thesis by simp
  qed
  have lob: "map2 (\<lambda>p v. if p < lcfs' then ?e else v) psi (replicate ?n ?e) = replicate ?n ?e"
    by (rule nth_equalityI) simp_all
  have ne: "replicate ?n ?e \<noteq> []" using psi(2) by simp
  have mx: "amax (replicate ?n ?e) = ?e" using psi(2) by (intro amax_replicate) simp
  have nz: "flat_peak lq Sw \<noteq> 0" using flat_peak_pos [of lq Sw] by simp
  have fin: "map (\<lambda>v. v / ?e * Fin c) (replicate ?n ?e) = replicate ?n (Fin c)"
    "hd [?e] / ?e * Fin c = Fin c"
    using nz by simp_all
  show ?thesis
    unfolding set_layer_def
    by (simp only: x xsep s0 g1 g2 bind_Inr if_True if_False prod.case Let_def h ref am x0 qm qv qs
        lob ne mx fin if_cancel)
qed

lemma select_nonempty: "length m = length xs \<Longrightarrow> True \<in> set m \<Longrightarrow> select m xs \<noteq> []"
proof (induction m xs rule: list_induct2)
  case Nil
  then show ?case by simp
next
  case (Cons b bs x xs)
  then show ?case by (cases b) (simp_all add: select_def)
qed

lemma flat_getq_layer:
  assumes e: "ep self = flat_ep" and h: "\<not> truthy (HFS self)"
    and psi: "\<forall>p \<in> set (psimin self). 0.225 \<le> p" "psimin self \<noteq> []"
    and l: "0.275 \<le> lcfs self" and w: "lqCN self \<noteq> 0" "S self \<noteq> 0"
    and len: "length (pfr self) = length (psimin self)"
  shows "getq_layer example_scipy self = Inr (replicate (length (psimin self)) (Fin 1))"
proof -
  have a: "set_layer example_scipy self (psimin self) (lqCN self) (S self) (lcfs self) (Fin 1) True
      = Inr (replicate (length (psimin self)) (Fin 1), Fin 1)"
    by (rule flat_set_layer [OF e h psi l w])
  show ?thesis
  proof (cases "True \<in> set (pfr self)")
    case False
    then show ?thesis unfolding getq_layer_def a bind_Inr by simp
  next
    case True
    have ne: "select (pfr self) (psimin self) \<noteq> []"
      by (rule select_nonempty [OF len True])
    have ge: "\<forall>p \<in> set (select (pfr self) (psimin self)). 0.225 \<le> p"
      using psi(1) select_set [of "pfr self" "psimin self"] by blast
    have b: "set_layer example_scipy self (select (pfr self) (psimin self)) (lqCN self) (S self) 1.0 (Fin 1) False
        = Inr (replicate (length (select (pfr self) (psimin self))) (Fin 1), Fin 1)"
      by (rule flat_set_layer [OF e h ge ne _ w]) simp
    have c: "put_mask (pfr self) (replicate (length (psimin self)) (Fin 1))
        (replicate (length (select (pfr self) (psimin self))) (Fin 1))
        = replicate (length (psimin self)) (Fin 1)"
      using put_mask_const [of "replicate (length (psimin self)) (Fin 1)" "Fin 1"
          "replicate (length (select (pfr self) (psimin self))) (Fin 1)" "pfr self"]
      by simp
    show ?thesis unfolding getq_layer_def a bind_Inr
      by (simp only: prod.case True if_True len b bind_Inr c simp_thms if_False)
  qed
qed

lemma power_balance_grid:
  assumes t: "simps sci = trapz" and n: "length psiN = n" "psiN \<noteq> []"
    and nz: "c * ((last psiN - hd psiN) * (psiSep e - psiAxis e)) \<noteq> 0"
  shows "power_balance sci e P' (replicate n (Fin c)) psiN =
    Inr (Fin (P' / \<bar>2 * pi * (c * ((last psiN - hd psiN) * (psiSep e - psiAxis e)))\<bar>))"
proof -
  let ?f = "\<lambda>p. p * (psiSep e - psiAxis e) + psiAxis e"
  let ?psi = "map ?f psiN"
  have l: "last ?psi = ?f (last psiN)" using n(2) by (simp add: last_map)
  have hd': "hd ?psi = ?f (hd psiN)" using n(2) by (simp add: hd_map)
  have "trapz (replicate n (Fin c)) ?psi = Fin (c * (last ?psi - hd ?psi))"
    by (rule trapz_replicate) (use n in simp_all)
  also have "last ?psi - hd ?psi = (last psiN - hd psiN) * (psiSep e - psiAxis e)"
    unfolding l hd' by (simp add: algebra_simps)
  finally have tr: "trapz (replicate n (Fin c)) ?psi
      = Fin (c * ((last psiN - hd psiN) * (psiSep e - psiAxis e)))" .
  have len: "length (replicate n (Fin c)) = length ?psi" using n by simp
  have nz': "2 * pi * (c * ((last psiN - hd psiN) * (psiSep e - psiAxis e))) \<noteq> 0"
    using nz by simp
  show ?thesis
    unfolding power_balance_def Let_def t tr
    using len nz' by (simp add: abs_if)
qed

lemma linspace_nth0: "0 < n \<Longrightarrow> linspace a b n ! 0 = a"
  by (simp add: linspace_def)

lemma argmin_replicate:
  assumes "0 < k"
  shows "argmin (replicate k x) = 0"
proof -
  obtain j where k: "k = Suc j" using assms by (cases k) simp_all
  have "set (replicate k x) = {x}" using assms by simp
  then have "Min (set (replicate k x)) = x" by simp
  then show ?thesis unfolding argmin_def k by simp
qed

lemma flat_layer_shape:
  assumes e: "ep self = flat_ep" and h: "\<not> truthy (HFS self)" and l: "lcfs self = 0.97"
    and d: "inputDir self = ''.''"
  shows "layer_shape example_scipy layer_files run self 5 2 (Some 1.0)
     = Inr (replicate 1000 (Fin 1),
            map (\<lambda>r. psiFunc_ev flat_ep r (ZmAxis flat_ep)) (linspace 2.46 2.5 1000))"
proof -
  have Rl: "map_R_psi1 example_scipy self (lcfs self) = Inr 2.5"
    unfolding l by (rule flat_map_R_psi1 [OF e h]) simp
  have b: "(if gR flat_ep = [] then Inl (ValueError ''max() arg is an empty sequence'')
            else Inr (if 2.5 - 20.0 * 2 * (1 / 1000) < RmAxis flat_ep then RmAxis flat_ep
                      else 2.5 - 20.0 * 2 * (1 / 1000),
                      if 2.5 + 20.0 * 5 * (1 / 1000) > Max (set (gR flat_ep)) then Max (set (gR flat_ep))
                      else 2.5 + 20.0 * 5 * (1 / 1000)))
      = (Inr (2.46, 2.5) :: error + real \<times> real)"
    by (simp add: flat_ep_def)
  have fl: "''.'' @ ''/'' @ ''lam_'' @ ''lfs_mp'' @ ''.dat'' = ''./lam_lfs_mp.dat''" by simp
  have lf: "layer_files ''./lam_lfs_mp.dat'' = Some (replicate 1000 [0, 0, 0, 0, 1])"
    by (simp add: layer_files_def)
  have gf: "genfromtxt (replicate 1000 [0, 0, 0, 0, 1]) = Inr (Arr2 (replicate 1000 [0, 0, 0, 0, 1]))"
    by (rule genfromtxt_table [where n = 5]) simp_all
  have col: "column 4 (Arr2 (replicate 1000 [0, 0, 0, 0, 1])) = Inr (replicate 1000 1)"
    by simp
  have ne1: "replicate 1000 (1::real) \<noteq> []" by simp
  have am: "argmin (map (\<lambda>p. \<bar>p - 1.0\<bar>) (replicate 1000 1)) = 0"
    by (simp add: argmin_replicate)
  have ln: "\<not> length (linspace 2.46 2.5 1000) \<le> 0" by simp
  have nomask: "True \<notin> set (map (\<lambda>r. r < linspace 2.46 2.5 1000 ! 0) (linspace 2.46 2.5 1000))"
  proof
    assume "True \<in> set (map (\<lambda>r. r < linspace 2.46 2.5 1000 ! 0) (linspace 2.46 2.5 1000))"
    then obtain r :: real where r: "r \<in> set (linspace 2.46 2.5 1000)" "r < 2.46"
      by (auto simp: linspace_nth0)
    from r(1) have "2.46 \<le> r" by (rule_tac linspace_ge) simp_all
    with r(2) show False by simp
  qed
  have sl: "set_layer example_scipy self (replicate 1000 1) 5 2 (lcfs self) (Fin 1) True
      = Inr (replicate 1000 (Fin 1), Fin 1)"
    using flat_set_layer [OF e h, of "replicate 1000 1" "lcfs self" 5 2 1 True] by (simp add: l)
  show ?thesis
    unfolding layer_shape_def
    by (simp only: e h Rl bind_Inr Let_def if_False if_True option.case d b prod.case fl lf
        option.distinct not_False_eq_True simp_thms gf col ne1 am ln nomask sl)
qed

lemma layer_fields:
  "model layer_self = Some ''Layer''" "lcfs layer_self = 0.97" "S layer_self = 2"
  "lqCN layer_self = 5" "kappa layer_self = 2000" "Psol layer_self = 10"
  "qBG layer_self = 0.5" "ep layer_self = flat_ep" "Lcmin layer_self = 0.075"
  "P layer_self = 10" "coreRadFrac layer_self = 0" "inputDir layer_self = ''.''"
  by (simp_all add: layer_self_def layer_input_def setHFctl_defaults_def setHFctl_def
      example_self_def)

lemma layer_initialize:
  "initializeHF3D example_scipy layer_files example_self flat_ep (Some layer_input) ''.''
     = Inr layer_self"
  by (simp add: initializeHF3D_def resolve_profile_def layer_input_def example_self_def
      setHFctl_defaults_def setHFctl_def layer_self_def bind_def Let_def)

lemma layer_update:
  "updateLaminarData layer_self [0.9, 1.0, 10, 1.05] [0.05, 0.2, 0.01, 0.3] = Inr layer_scenario"
  by (simp add: updateLaminarData_same_length layer_scenario_def layer_fields numeral_eq_Suc)

lemma layer_scenario_fields:
  "model (layer_scenario\<lparr>HFS := Some False\<rparr>) = Some ''Layer''"
  "lcfs (layer_scenario\<lparr>HFS := Some False\<rparr>) = 0.97"
  "S (layer_scenario\<lparr>HFS := Some False\<rparr>) = 2"
  "lqCN (layer_scenario\<lparr>HFS := Some False\<rparr>) = 5"
  "Psol (layer_scenario\<lparr>HFS := Some False\<rparr>) = 10"
  "qBG (layer_scenario\<lparr>HFS := Some False\<rparr>) = 0.5"
  "ep (layer_scenario\<lparr>HFS := Some False\<rparr>) = flat_ep"
  "inputDir (layer_scenario\<lparr>HFS := Some False\<rparr>) = ''.''"
  "HFS (layer_scenario\<lparr>HFS := Some False\<rparr>) = Some False"
  "psimin (layer_scenario\<lparr>HFS := Some False\<rparr>) = [0.9, 1.0, 10, 1.05]"
  "pfr (layer_scenario\<lparr>HFS := Some False\<rparr>) = [True, False, False, False]"
  "good (layer_scenario\<lparr>HFS := Some False\<rparr>) = [True, True, False, True]"
  "q (layer_scenario\<lparr>HFS := Some False\<rparr>) = [Fin 0, Fin 0, Fin 0, Fin 0]"
  "model layer_scenario = Some ''Layer''"
  by (simp_all add: layer_scenario_def layer_fields)

lemma layer_getq:
  "getq_layer example_scipy (layer_scenario\<lparr>HFS := Some False\<rparr>) = Inr (replicate 4 (Fin 1))"
proof -
  have "getq_layer example_scipy (layer_scenario\<lparr>HFS := Some False\<rparr>)
      = Inr (replicate (length (psimin (layer_scenario\<lparr>HFS := Some False\<rparr>))) (Fin 1))"
    by (rule flat_getq_layer) (simp_all add: layer_scenario_fields truthy_def)
  then show ?thesis by (simp add: layer_scenario_fields numeral_eq_Suc)
qed

lemma flat_grid:
  "length (map (\<lambda>r. psiFunc_ev flat_ep r (ZmAxis flat_ep)) (linspace 2.46 2.5 1000)) = 1000"
  "map (\<lambda>r. psiFunc_ev flat_ep r (ZmAxis flat_ep)) (linspace 2.46 2.5 1000) \<noteq> []"
  "last (map (\<lambda>r. psiFunc_ev flat_ep r (ZmAxis flat_ep)) (linspace 2.46 2.5 1000)) = 0.225"
  "hd (map (\<lambda>r. psiFunc_ev flat_ep r (ZmAxis flat_ep)) (linspace 2.46 2.5 1000)) = 0.21316"
proof -
  have ne: "linspace 2.46 2.5 1000 \<noteq> []"
  proof
    assume "linspace 2.46 2.5 1000 = []"
    then have "length (linspace 2.46 2.5 1000) = 0" by simp
    then show False by simp
  qed
  show "length (map (\<lambda>r. psiFunc_ev flat_ep r (ZmAxis flat_ep)) (linspace 2.46 2.5 1000)) = 1000"
    by simp
  show "map (\<lambda>r. psiFunc_ev flat_ep r (ZmAxis flat_ep)) (linspace 2.46 2.5 1000) \<noteq> []"
    using ne by simp
  show "last (map (\<lambda>r. psiFunc_ev flat_ep r (ZmAxis flat_ep)) (linspace 2.46 2.5 1000)) = 0.225"
    using ne by (simp add: last_map linspace_last flat_ep_def power2_eq_square)
  show "hd (map (\<lambda>r. psiFunc_ev flat_ep r (ZmAxis flat_ep)) (linspace 2.46 2.5 1000)) = 0.21316"
    using ne by (simp add: hd_map linspace_hd flat_ep_def power2_eq_square)
qed

lemma layer_scale_value:
  "scale_layer example_scipy layer_files run (layer_scenario\<lparr>HFS := Some False\<rparr>) 5 2 (10 * 1) (Some 1.0)
     = Inr (Fin layer_scale)"
proof -
  let ?s = "layer_scenario\<lparr>HFS := Some False\<rparr>"
  let ?g = "map (\<lambda>r. psiFunc_ev flat_ep r (ZmAxis flat_ep)) (linspace 2.46 2.5 1000)"
  have sh: "layer_shape example_scipy layer_files run ?s 5 2 (Some 1.0) = Inr (replicate 1000 (Fin 1), ?g)"
    by (rule flat_layer_shape) (simp_all add: layer_scenario_fields truthy_def)
  have "power_balance example_scipy flat_ep (10 * 1) (replicate 1000 (Fin 1)) ?g =
    Inr (Fin (10 * 1 / \<bar>2 * pi * (1 * ((last ?g - hd ?g) * (psiSep flat_ep - psiAxis flat_ep)))\<bar>))"
  proof (rule power_balance_grid)
    show "simps example_scipy = trapz" by (simp add: example_scipy_def)
    show "length ?g = 1000" by (rule flat_grid)
    show "?g \<noteq> []" by (rule flat_grid)
    show "1 * ((last ?g - hd ?g) * (psiSep flat_ep - psiAxis flat_ep)) \<noteq> 0"
      unfolding flat_grid by (simp add: flat_ep_def)
  qed
  moreover have "psiSep flat_ep - psiAxis flat_ep = 1 - 0" by (simp add: flat_ep_def)
  ultimately have pb: "power_balance example_scipy flat_ep (10 * 1) (replicate 1000 (Fin 1)) ?g =
    Inr (Fin layer_scale)"
    unfolding flat_grid layer_scale_def by (simp only:)
  show ?thesis
    unfolding scale_layer_def sh bind_Inr prod.case layer_scenario_fields(7) by (rule pb)
qed

lemma layer_model:
  "heatflux_model example_scipy layer_files run layer_scenario ''O'' 1 =
     Inr (layer_scenario\<lparr>HFS := Some False\<rparr>, replicate 4 (Fin 1), Fin layer_scale)"
proof -
  have m: "''Layer'' \<in> set [''Layer'', ''layer'', ''eich'', ''Eich'', ''heuristic'']" by simp
  have o: "CHR ''O'' \<in> set ''O''" by simp
  have sc: "scale_layer example_scipy layer_files run (layer_scenario\<lparr>HFS := Some False\<rparr>)
      (lqCN (layer_scenario\<lparr>HFS := Some False\<rparr>)) (S (layer_scenario\<lparr>HFS := Some False\<rparr>))
      (Psol (layer_scenario\<lparr>HFS := Some False\<rparr>) * 1) (Some 1.0) = Inr (Fin layer_scale)"
    unfolding layer_scenario_fields by (rule layer_scale_value)
  show ?thesis
    unfolding heatflux_model_def
    by (simp only: layer_scenario_fields(14) option.case m o if_True bind_Inr Let_def layer_getq sc)
qed

lemma layer_heatflux:
  "heatflux example_scipy layer_files run layer_scenario ''O'' 1 = Inr layer_flux"
proof -
  have m: "map (\<lambda>v. v * Fin layer_scale) (replicate 4 (Fin 1)) =
      [Fin layer_scale, Fin layer_scale, Fin layer_scale, Fin layer_scale]"
    by (simp add: numeral_eq_Suc)
  show ?thesis
    unfolding heatflux_def layer_model bind_Inr prod.case Let_def m
    by (simp add: layer_scenario_fields select_def layer_flux_def)
qed


section \<open>The claims on the examples\<close>

theorem sentinel_point_gets_background_witness:
  "updateLaminarData default_self [0.9, 1.0, 10, 1.05] [0.05, 0.2, 0.01, 0.3] = Inr default_scenario
   \<and> heatflux example_scipy (\<lambda>f. None) no_tracer default_scenario ''O'' 1 = Inr default_flux
   \<and> q default_flux ! 2 = Fin (qBG default_flux)
   \<and> updateLaminarData conduct_self [0.9, 1.0, 10, 1.05] [0.05, 0.2, 0.01, 0.3] = Inr scenario_self
   \<and> heatflux example_scipy (\<lambda>f. None) no_tracer scenario_self ''O'' 1 = Inr scenario_flux
   \<and> q scenario_flux ! 2 = Fin (qBG scenario_flux)
   \<and> updateLaminarData layer_self [0.9, 1.0, 10, 1.05] [0.05, 0.2, 0.01, 0.3] = Inr layer_scenario
   \<and> heatflux example_scipy layer_files no_tracer layer_scenario ''O'' 1 = Inr layer_flux
   \<and> q layer_flux ! 2 = Fin (qBG layer_flux)
   \<and> [0.9, 1.0, 10, 1.05 :: real] ! 2 = 10"
  using default_update default_heatflux [of "\<lambda>f. None" no_tracer "''O''" 1]
    scenario_update scenario_heatflux layer_update layer_heatflux [of no_tracer]
    sentinel_point_gets_background
      [OF default_update default_heatflux [of "\<lambda>f. None" no_tracer "''O''" 1], of 2]
    sentinel_point_gets_background [OF scenario_update scenario_heatflux, of 2]
    sentinel_point_gets_background [OF layer_update layer_heatflux [of no_tracer], of 2]
  by simp




theorem power_balance_scale_witness:
  "initializeHF3D example_scipy (\<lambda>f. None) example_self example_ep (Some conduct_input) ''.''
     = Inr conduct_self
   \<and> updateLaminarData conduct_self [0.9, 1.0, 10, 1.05] [0.05, 0.2, 0.01, 0.3] = Inr scenario_self
   \<and> heatflux_model example_scipy (\<lambda>f. None) no_tracer scenario_self ''O'' 1 =
       Inr (scenario_self, replicate 4 (Fin scenario_shape),
            Fin (10 * 1 / \<bar>2 * pi * (scenario_shape * (0.35 * (1 - 0)))\<bar>))
   \<and> Fin (10 * 1 / \<bar>2 * pi * (scenario_shape * (0.35 * (1 - 0)))\<bar>)
       = Fin (P conduct_self * (1 - coreRadFrac conduct_self) * 1)
         / (if simps example_scipy (replicate 1000 (Fin scenario_shape))
                 (map (\<lambda>p. p * (psiSep (ep scenario_self) - psiAxis (ep scenario_self))
                            + psiAxis (ep scenario_self)) (linspace 0.85 1.2 1000)) < Fin 0
            then - (Fin (2 * pi) * simps example_scipy (replicate 1000 (Fin scenario_shape))
                 (map (\<lambda>p. p * (psiSep (ep scenario_self) - psiAxis (ep scenario_self))
                            + psiAxis (ep scenario_self)) (linspace 0.85 1.2 1000)))
            else Fin (2 * pi) * simps example_scipy (replicate 1000 (Fin scenario_shape))
                 (map (\<lambda>p. p * (psiSep (ep scenario_self) - psiAxis (ep scenario_self))
                            + psiAxis (ep scenario_self)) (linspace 0.85 1.2 1000)))
   \<and> initializeHF3D example_scipy layer_files example_self flat_ep (Some layer_input) ''.''
     = Inr layer_self
   \<and> updateLaminarData layer_self [0.9, 1.0, 10, 1.05] [0.05, 0.2, 0.01, 0.3] = Inr layer_scenario
   \<and> heatflux_model example_scipy layer_files no_tracer layer_scenario ''O'' 1 =
       Inr (layer_scenario\<lparr>HFS := Some False\<rparr>, replicate 4 (Fin 1), Fin layer_scale)
   \<and> Fin layer_scale
       = Fin (P layer_self * (1 - coreRadFrac layer_self) * 1)
         / (if simps example_scipy (replicate 1000 (Fin 1))
                 (map (\<lambda>p. p * (psiSep (ep layer_scenario) - psiAxis (ep layer_scenario))
                            + psiAxis (ep layer_scenario))
                    (map (\<lambda>r. psiFunc_ev flat_ep r (ZmAxis flat_ep)) (linspace 2.46 2.5 1000))) < Fin 0
            then - (Fin (2 * pi) * simps example_scipy (replicate 1000 (Fin 1))
                 (map (\<lambda>p. p * (psiSep (ep layer_scenario) - psiAxis (ep layer_scenario))
                            + psiAxis (ep layer_scenario))
                    (map (\<lambda>r. psiFunc_ev flat_ep r (ZmAxis flat_ep)) (linspace 2.46 2.5 1000))))
            else Fin (2 * pi) * simps example_scipy (replicate 1000 (Fin 1))
                 (map (\<lambda>p. p * (psiSep (ep layer_scenario) - psiAxis (ep layer_scenario))
                            + psiAxis (ep layer_scenario))
                    (map (\<lambda>r. psiFunc_ev flat_ep r (ZmAxis flat_ep)) (linspace 2.46 2.5 1000))))"
proof -
  from power_balance_scale [OF conduct_initialize scenario_update scenario_model]
  obtain q_hat psiN where
    sh: "(model scenario_self \<in> Some ` set [''Layer'', ''layer'', ''eich'', ''Eich'', ''heuristic'']
            \<and> layer_shape example_scipy (\<lambda>f. None) no_tracer scenario_self (lqCN scenario_self)
                 (S scenario_self) (Some 1.0) = Inr (q_hat, psiN))
       \<or> (model scenario_self \<in> Some ` set [''conduct'', ''conductive'']
            \<and> conduct_shape scenario_self (kappa scenario_self)
                 (mean (select (map (\<lambda>x. x > lcfs scenario_self) (psimin scenario_self)) (Lc scenario_self)) * Fin 1000)
                 (lqCN scenario_self / S scenario_self) = (q_hat, psiN))"
    and q0: "Fin (10 * 1 / \<bar>2 * pi * (scenario_shape * (0.35 * (1 - 0)))\<bar>)
       = Fin (P conduct_self * (1 - coreRadFrac conduct_self) * 1)
         / (if simps example_scipy q_hat
                 (map (\<lambda>p. p * (psiSep (ep scenario_self) - psiAxis (ep scenario_self))
                            + psiAxis (ep scenario_self)) psiN) < Fin 0
            then - (Fin (2 * pi) * simps example_scipy q_hat
                 (map (\<lambda>p. p * (psiSep (ep scenario_self) - psiAxis (ep scenario_self))
                            + psiAxis (ep scenario_self)) psiN))
            else Fin (2 * pi) * simps example_scipy q_hat
                 (map (\<lambda>p. p * (psiSep (ep scenario_self) - psiAxis (ep scenario_self))
                            + psiAxis (ep scenario_self)) psiN))"
    by blast
  from sh have "conduct_shape scenario_self (kappa scenario_self)
                 (mean (select (map (\<lambda>x. x > lcfs scenario_self) (psimin scenario_self)) (Lc scenario_self)) * Fin 1000)
                 (lqCN scenario_self / S scenario_self) = (q_hat, psiN)"
    by (auto simp: scenario_fields(1))
  then have "q_hat = replicate 1000 (Fin scenario_shape)" "psiN = linspace 0.85 1.2 1000"
    unfolding scenario_conduct_shape by simp_all
  with q0 have conductive: "Fin (10 * 1 / \<bar>2 * pi * (scenario_shape * (0.35 * (1 - 0)))\<bar>)
       = Fin (P conduct_self * (1 - coreRadFrac conduct_self) * 1)
         / (if simps example_scipy (replicate 1000 (Fin scenario_shape))
                 (map (\<lambda>p. p * (psiSep (ep scenario_self) - psiAxis (ep scenario_self))
                            + psiAxis (ep scenario_self)) (linspace 0.85 1.2 1000)) < Fin 0
            then - (Fin (2 * pi) * simps example_scipy (replicate 1000 (Fin scenario_shape))
                 (map (\<lambda>p. p * (psiSep (ep scenario_self) - psiAxis (ep scenario_self))
                            + psiAxis (ep scenario_self)) (linspace 0.85 1.2 1000)))
            else Fin (2 * pi) * simps example_scipy (replicate 1000 (Fin scenario_shape))
                 (map (\<lambda>p. p * (psiSep (ep scenario_self) - psiAxis (ep scenario_self))
                            + psiAxis (ep scenario_self)) (linspace 0.85 1.2 1000)))"
    by (simp only:)
  from power_balance_scale [OF layer_initialize layer_update layer_model [of no_tracer]]
  obtain q_hat' psiN' where
    sh': "(model layer_scenario \<in> Some ` set [''Layer'', ''layer'', ''eich'', ''Eich'', ''heuristic'']
            \<and> layer_shape example_scipy layer_files no_tracer (layer_scenario\<lparr>HFS := Some False\<rparr>)
                 (lqCN layer_scenario) (S layer_scenario) (Some 1.0) = Inr (q_hat', psiN'))
       \<or> (model layer_scenario \<in> Some ` set [''conduct'', ''conductive'']
            \<and> conduct_shape layer_scenario (kappa layer_scenario)
                 (mean (select (map (\<lambda>x. x > lcfs layer_scenario) (psimin layer_scenario)) (Lc layer_scenario)) * Fin 1000)
                 (lqCN layer_scenario / S layer_scenario) = (q_hat', psiN'))"
    and q0': "Fin layer_scale
       = Fin (P layer_self * (1 - coreRadFrac layer_self) * 1)
         / (if simps example_scipy q_hat'
                 (map (\<lambda>p. p * (psiSep (ep layer_scenario) - psiAxis (ep layer_scenario))
                            + psiAxis (ep layer_scenario)) psiN') < Fin 0
            then - (Fin (2 * pi) * simps example_scipy q_hat'
                 (map (\<lambda>p. p * (psiSep (ep layer_scenario) - psiAxis (ep layer_scenario))
                            + psiAxis (ep layer_scenario)) psiN'))
            else Fin (2 * pi) * simps example_scipy q_hat'
                 (map (\<lambda>p. p * (psiSep (ep layer_scenario) - psiAxis (ep layer_scenario))
                            + psiAxis (ep layer_scenario)) psiN'))"
    by blast
  have w: "lqCN layer_scenario = 5" "S layer_scenario = 2"
    by (simp_all add: layer_scenario_def layer_fields)
  from sh' have "layer_shape example_scipy layer_files no_tracer (layer_scenario\<lparr>HFS := Some False\<rparr>)
                 5 2 (Some 1.0) = Inr (q_hat', psiN')"
    by (auto simp: layer_scenario_fields(14) w)
  moreover have "layer_shape example_scipy layer_files no_tracer (layer_scenario\<lparr>HFS := Some False\<rparr>)
      5 2 (Some 1.0) = Inr (replicate 1000 (Fin 1),
        map (\<lambda>r. psiFunc_ev flat_ep r (ZmAxis flat_ep)) (linspace 2.46 2.5 1000))"
    by (rule flat_layer_shape) (simp_all add: layer_scenario_fields truthy_def)
  ultimately have "q_hat' = replicate 1000 (Fin 1)"
    "psiN' = map (\<lambda>r. psiFunc_ev flat_ep r (ZmAxis flat_ep)) (linspace 2.46 2.5 1000)"
    by simp_all
  with q0' have layer: "Fin layer_scale
       = Fin (P layer_self * (1 - coreRadFrac layer_self) * 1)
         / (if simps example_scipy (replicate 1000 (Fin 1))
                 (map (\<lambda>p. p * (psiSep (ep layer_scenario) - psiAxis (ep layer_scenario))
                            + psiAxis (ep layer_scenario))
                    (map (\<lambda>r. psiFunc_ev flat_ep r (ZmAxis flat_ep)) (linspace 2.46 2.5 1000))) < Fin 0
            then - (Fin (2 * pi) * simps example_scipy (replicate 1000 (Fin 1))
                 (map (\<lambda>p. p * (psiSep (ep layer_scenario) - psiAxis (ep layer_scenario))
                            + psiAxis (ep layer_scenario))
                    (map (\<lambda>r. psiFunc_ev flat_ep r (ZmAxis flat_ep)) (linspace 2.46 2.5 1000))))
            else Fin (2 * pi) * simps example_scipy (replicate 1000 (Fin 1))
                 (map (\<lambda>p. p * (psiSep (ep layer_scenario) - psiAxis (ep layer_scenario))
                            + psiAxis (ep layer_scenario))
                    (map (\<lambda>r. psiFunc_ev flat_ep r (ZmAxis flat_ep)) (linspace 2.46 2.5 1000))))"
    by (simp only:)
  from conduct_initialize scenario_update scenario_model conductive
    layer_initialize layer_update layer_model [of no_tracer] layer
  show ?thesis by (intro conjI)
qed

end
